theory Spec2Isabelle
  imports Main "HOL-Library.Word"
begin

section \<open>Values of the Go program\<close>

type_synonym byte = "8 word"
type_synonym bytes = "byte list"

text \<open>A Go \<open>error\<close> value, identified by the message it reports.\<close>

datatype error = Error string

text \<open>\<open>fmt.Errorf(prefix + "%v", err)\<close>: a new error whose message is the prefix followed by
  the message of \<open>err\<close>.\<close>

fun Errorf :: "string \<Rightarrow> error \<Rightarrow> error" where
  "Errorf prefix (Error m) = Error (prefix @ m)"

definition ErrClosedPipe :: error where
  "ErrClosedPipe = Error ''io: read/write on closed pipe''"

text \<open>What a panic carries: the error handed to \<open>panic(err)\<close>, or one of the two runtime
  failures the code can run into (a nil pointer dereference, a WaitGroup counter taken below
  zero).\<close>

datatype panic = PanicError error | NilDereference | NegativeCounter

text \<open>How a call ends. \<open>Returns\<close> is a normal return; \<open>Panics\<close> is a panic raised in the
  calling goroutine; \<open>Crashes\<close> is a panic raised in the background goroutine, which nothing
  recovers and which therefore ends the whole process before the call has returned;
  \<open>Deadlock\<close> is a call that blocks forever.\<close>

datatype 'a outcome = Returns 'a | Panics panic | Crashes panic | Deadlock

text \<open>Modelled from the spec: the struct \<open>models.EncryptedSplit\<close> is declared outside
  \<open>attachment.go\<close>. The spec (section 3) gives it a key packet, a data packet and the
  identifier of the symmetric cipher; the source assigns its field \<open>Algo\<close>.\<close>

record EncryptedSplit =
  DataPacket :: bytes
  KeyPacket :: bytes
  Algo :: string

text \<open>Modelled from the spec: \<open>constants.AES256\<close> is declared outside
  \<open>attachment.go\<close>; the spec says only that the cipher is fixed to a 256-bit AES variant. The
  identifier is kept as the value.\<close>

definition AES256 :: string where
  "AES256 = ''aes256''"

text \<open>\<open>packet.CipherFunction\<close> is an unsigned 8-bit code; 9 is AES-256 in OpenPGP.\<close>

definition CipherAES256 :: "8 word" where
  "CipherAES256 = 9"

text \<open>The clock that \<open>pgp.getTimeGenerator()\<close> hands out is opaque to this file; it is
  represented by the instant it reports. The struct \<open>GopenPGP\<close> is declared elsewhere and only
  this method of it is used, so the receiver \<open>pgp\<close> is the record of that one result.\<close>

type_synonym TimeGenerator = int

record GopenPGP =
  getTimeGenerator :: TimeGenerator

record FileHints =
  FileName :: string

text \<open>\<open>packet.Config\<close> with the two fields the source sets; an unset \<open>DefaultCipher\<close> is the
  zero value.\<close>

record Config =
  DefaultCipher :: "8 word"
  Time :: TimeGenerator

text \<open>A key ring holds a slice of pointers to key entities. The entities live in a store so
  that what \<open>Unlock\<close> does to them in place is seen through pointers taken earlier.\<close>

type_synonym addr = nat
type_synonym 'e store = "addr \<rightharpoonup> 'e"

record KeyRing =
  entities :: "addr list"

section \<open>Readers\<close>

text \<open>An \<open>io.Reader\<close> over finite data is the sequence of results its \<open>Read\<close> calls deliver:
  chunks of bytes, ended by \<open>io.EOF\<close> or by an error.\<close>

datatype Reader = EOF | Fail error | Chunk bytes Reader

text \<open>\<open>bytes.NewReader(b)\<close>.\<close>

definition NewReader :: "bytes \<Rightarrow> Reader" where
  "NewReader b = (if b = [] then EOF else Chunk b EOF)"

text \<open>\<open>io.MultiReader(r1, r2)\<close>: the results of \<open>r1\<close> up to its end of file, then those of
  \<open>r2\<close>; an error of \<open>r1\<close> ends the stream.\<close>

fun MultiReader :: "Reader \<Rightarrow> Reader \<Rightarrow> Reader" where
  "MultiReader EOF r2 = r2"
| "MultiReader (Fail e) r2 = Fail e"
| "MultiReader (Chunk b r1) r2 = Chunk b (MultiReader r1 r2)"

text \<open>\<open>ioutil.ReadAll(r)\<close>: reads until end of file or an error and returns what was read,
  with a nil error at end of file.\<close>

fun ReadAll :: "Reader \<Rightarrow> bytes \<times> error option" where
  "ReadAll EOF = ([], None)"
| "ReadAll (Fail e) = ([], Some e)"
| "ReadAll (Chunk b r) = (case ReadAll r of (bs, e) \<Rightarrow> (b @ bs, e))"

record MessageDetails =
  UnverifiedBody :: Reader

section \<open>The conduit, the background task and the session\<close>

text \<open>\<open>io.Pipe()\<close>: the bytes accepted by the write end so far, in order, and whether the
  write end has been closed. The read end sees exactly these bytes and then end of file.\<close>

record Pipe =
  written :: bytes
  closed :: bool

definition PipeWriter_Write :: "Pipe \<Rightarrow> bytes \<Rightarrow> Pipe \<times> error option" where
  "PipeWriter_Write p b =
     (if closed p then (p, Some ErrClosedPipe) else (p\<lparr>written := written p @ b\<rparr>, None))"

definition PipeWriter_Close :: "Pipe \<Rightarrow> Pipe" where
  "PipeWriter_Close p = p\<lparr>closed := True\<rparr>"

text \<open>The field \<open>pipe\<close> of the processor is a pointer to the write end of the one conduit of
  the session; \<open>None\<close> is the nil pointer.\<close>

datatype PipeWriter = PipeWriter

text \<open>The struct of the source. \<open>w\<close> points to the encryption front-end, whose state is of
  type \<open>'w\<close>; \<open>done_wg\<close> is the counter of the \<open>sync.WaitGroup\<close> field \<open>done\<close>. The size
  hint and the threshold are Go \<open>int\<close>s that the code only passes on and compares with zero;
  the constants it uses, \<open>-1\<close> and \<open>1<<20\<close>, fit every width, so they are integers here.\<close>

record 'w AttachmentProcessor =
  w :: "'w option"
  pipe :: "PipeWriter option"
  done_wg :: nat
  split :: "EncryptedSplit option"
  garbageCollector :: int
  err :: "error option"

text \<open>The goroutine started by \<open>encryptAttachment\<close>: not started, reading the conduit inside
  \<open>SeparateKeyAndData\<close> (with the two integers its closure captured), finished, or dead of a
  panic.\<close>

datatype task = NotStarted | Reading int int | Finished | Dead panic

text \<open>Effects in the order they happen: the goroutine is started, \<open>openpgp.Encrypt\<close> is
  called, \<open>Process\<close> writes a chunk, \<open>Finish\<close> closes the front-end, \<open>Finish\<close> closes the write
  end of the conduit, \<open>SeparateKeyAndData\<close> returns from the stream it has read, the task
  signals completion with \<open>Done\<close>, \<open>Wait\<close> returns, \<open>runtime.GC()\<close> is called.\<close>

datatype event =
    EvGo
  | EvEncrypt
  | EvWrite bytes
  | EvCloseWriter
  | EvClosePipe
  | EvSeparate bytes
  | EvDone
  | EvWait
  | EvGC

record 'w world =
  attachmentProc :: "'w AttachmentProcessor"
  conduit :: Pipe
  split_task :: task
  trace :: "event list"

section \<open>Collaborators\<close>

text \<open>Functions that the source calls and that are defined outside it. The front-end returned
  by \<open>openpgp.Encrypt\<close> is a state machine of type \<open>'w\<close> that emits ciphertext into its sink:
  construction emits the first bytes, each \<open>Write\<close> and the final \<open>Close\<close> emit more.
  \<open>SeparateKeyAndData\<close> is a function of the whole stream it reads and of its two integer
  arguments. \<open>Unlock\<close> changes key entities in the store. \<open>openpgp.ReadMessage\<close> is a function
  of the stream it is given and of the entities it is pointed to.

  The last field is the one choice the Go scheduler has in a session. A task that panics
  still runs its deferred \<open>Done\<close>, which releases a caller blocked in \<open>Wait\<close>, and only then
  does the runtime end the process. \<open>caller_wins_race\<close> says whether the released caller
  gets to return from its call before the process ends.\<close>

record ('w, 'e) collaborators =
  openpgp_Encrypt :: "addr list \<Rightarrow> 'e store \<Rightarrow> FileHints \<Rightarrow> Config \<Rightarrow> error + (bytes \<times> 'w)"
  ew_Write :: "'w \<Rightarrow> bytes \<Rightarrow> bytes \<times> 'w \<times> error option"
  ew_Close :: "'w \<Rightarrow> bytes \<times> 'w \<times> error option"
  SeparateKeyAndData :: "bytes \<Rightarrow> int \<Rightarrow> int \<Rightarrow> EncryptedSplit option \<times> error option"
  Unlock :: "KeyRing \<Rightarrow> bytes \<Rightarrow> 'e store \<Rightarrow> error option \<times> 'e store"
  openpgp_ReadMessage :: "bytes \<Rightarrow> addr list \<Rightarrow> 'e store \<Rightarrow> Config \<Rightarrow> error + MessageDetails"
  caller_wins_race :: bool

section \<open>The encryption front-end over the conduit\<close>

text \<open>The \<open>io.WriteCloser\<close> returned by \<open>openpgp.Encrypt\<close>, bound to the write end of the
  conduit: what it emits goes into the conduit, and when the conduit refuses the bytes the
  caller gets the conduit's error unless the front-end has one of its own.\<close>

definition first_error :: "error option \<Rightarrow> error option \<Rightarrow> error option" where
  "first_error e1 e2 = (case e1 of Some e \<Rightarrow> Some e | None \<Rightarrow> e2)"

definition WriteCloser_Write ::
  "('w, 'e) collaborators \<Rightarrow> 'w \<Rightarrow> Pipe \<Rightarrow> bytes \<Rightarrow> 'w \<times> Pipe \<times> error option" where
  "WriteCloser_Write env fe p plainData =
     (case ew_Write env fe plainData of (out, fe', e1) \<Rightarrow>
        (case PipeWriter_Write p out of (p', e2) \<Rightarrow> (fe', p', first_error e1 e2)))"

definition WriteCloser_Close ::
  "('w, 'e) collaborators \<Rightarrow> 'w \<Rightarrow> Pipe \<Rightarrow> 'w \<times> Pipe \<times> error option" where
  "WriteCloser_Close env fe p =
     (case ew_Close env fe of (out, fe', e1) \<Rightarrow>
        (case PipeWriter_Write p out of (p', e2) \<Rightarrow> (fe', p', first_error e1 e2)))"

section \<open>Process\<close>

text \<open>
  \<^verbatim>\<open>func (ap *AttachmentProcessor) Process(plainData []byte) {
      if _, err := (*ap.w).Write(plainData); err != nil { panic(err) }
  }\<close>
\<close>

definition Process ::
  "('w, 'e) collaborators \<Rightarrow> 'w world \<Rightarrow> bytes \<Rightarrow> unit outcome \<times> 'w world" where
  "Process env s plainData =
     (case w (attachmentProc s) of
        None \<Rightarrow> (Panics NilDereference, s)
      | Some fe \<Rightarrow>
          (case WriteCloser_Write env fe (conduit s) plainData of (fe', p', e) \<Rightarrow>
             (let s' = s\<lparr>attachmentProc := (attachmentProc s)\<lparr>w := Some fe'\<rparr>,
                        conduit := p',
                        trace := trace s @ [EvWrite plainData]\<rparr>
              in case e of
                   Some x \<Rightarrow> (Panics (PanicError x), s')
                 | None \<Rightarrow> (Returns (), s'))))"

section \<open>The background split task\<close>

text \<open>\<open>sync.WaitGroup.Done\<close>: one less; taking the counter below zero panics.\<close>

definition WaitGroup_Done :: "nat \<Rightarrow> nat option" where
  "WaitGroup_Done n = (if n = 0 then None else Some (n - 1))"

text \<open>
  The body of the goroutine:
  \<^verbatim>\<open>defer attachmentProc.done.Done()
  split, splitError := SeparateKeyAndData(nil, reader, estimatedSize, garbageCollector)
  if attachmentProc.err != nil { attachmentProc.err = splitError }
  split.Algo = constants.AES256
  attachmentProc.split = split\<close>
  The separator reads the conduit to its end, so the body runs on everything written once
  the write end is closed. The assignment to \<open>split.Algo\<close> dereferences \<open>split\<close>; on a nil
  \<open>split\<close> the body panics there and the last assignment is not reached. The deferred
  \<open>Done\<close> runs in both cases; a panic of the body is the one the task dies of.
\<close>

definition split_task_body ::
  "('w, 'e) collaborators \<Rightarrow> int \<Rightarrow> int \<Rightarrow> bytes \<Rightarrow> 'w AttachmentProcessor \<Rightarrow>
     'w AttachmentProcessor \<times> panic option" where
  "split_task_body env estimatedSize gc stream ap =
     (case SeparateKeyAndData env stream estimatedSize gc of
        (sp, splitError) \<Rightarrow>
          (let ap1 = (if err ap \<noteq> None then ap\<lparr>err := splitError\<rparr> else ap)
           in case sp of
                None \<Rightarrow> (ap1, Some NilDereference)
              | Some x \<Rightarrow> (ap1\<lparr>split := Some (x\<lparr>Algo := AES256\<rparr>)\<rparr>, None)))"

text \<open>One run of the task in the world: the body on the bytes of the conduit, then the
  deferred \<open>Done\<close>.\<close>

definition run_split_task ::
  "('w, 'e) collaborators \<Rightarrow> int \<Rightarrow> int \<Rightarrow> 'w world \<Rightarrow> 'w world" where
  "run_split_task env estimatedSize gc s =
     (case split_task_body env estimatedSize gc (written (conduit s)) (attachmentProc s) of
        (ap, panicked) \<Rightarrow>
          (let tr = trace s @ [EvSeparate (written (conduit s))]
           in case WaitGroup_Done (done_wg ap) of
                None \<Rightarrow>
                  s\<lparr>attachmentProc := ap,
                    split_task := Dead (case panicked of Some p \<Rightarrow> p | None \<Rightarrow> NegativeCounter),
                    trace := tr\<rparr>
              | Some n \<Rightarrow>
                  s\<lparr>attachmentProc := ap\<lparr>done_wg := n\<rparr>,
                    split_task := (case panicked of Some p \<Rightarrow> Dead p | None \<Rightarrow> Finished),
                    trace := tr @ [EvDone]\<rparr>))"

text \<open>\<open>ap.done.Wait()\<close>: returns once the counter is zero. The task shares nothing with the
  caller but the conduit and the fields it writes at its end, so its run is placed where
  the caller waits for it: while the caller waits, the task runs if it can, and it can when
  the write end of the conduit is closed, so that its read reaches the end of the stream. A
  task that dies ends the process; when its deferred \<open>Done\<close> has taken the counter to zero
  the caller is released first, and returns from the wait if it wins the race against the
  end of the process. With a positive counter and no task that can run, the wait never
  returns.\<close>

definition WaitGroup_Wait ::
  "('w, 'e) collaborators \<Rightarrow> 'w world \<Rightarrow> unit outcome \<times> 'w world" where
  "WaitGroup_Wait env s =
     (if done_wg (attachmentProc s) = 0 then (Returns (), s\<lparr>trace := trace s @ [EvWait]\<rparr>)
      else case split_task s of
             Reading estimatedSize gc \<Rightarrow>
               (if closed (conduit s) then
                  (let s' = run_split_task env estimatedSize gc s
                   in case split_task s' of
                        Dead p \<Rightarrow>
                          (if done_wg (attachmentProc s') = 0 \<and> caller_wins_race env
                           then (Returns (), s'\<lparr>trace := trace s' @ [EvWait]\<rparr>)
                           else (Crashes p, s'))
                      | _ \<Rightarrow>
                          (if done_wg (attachmentProc s') = 0
                           then (Returns (), s'\<lparr>trace := trace s' @ [EvWait]\<rparr>)
                           else (Deadlock, s')))
                else (Deadlock, s))
           | _ \<Rightarrow> (Deadlock, s))"

section \<open>Finish\<close>

text \<open>
  \<^verbatim>\<open>func (ap *AttachmentProcessor) Finish() (*models.EncryptedSplit, error) {
      if ap.err != nil { return nil, ap.err }
      (*ap.w).Close()
      (*ap.pipe).Close()
      ap.done.Wait()
      if ap.garbageCollector > 0 { runtime.GC() }
      return ap.split, nil
  }\<close>
  The error of the front-end's \<open>Close\<close> is dropped, as in the source.
\<close>

definition Finish ::
  "('w, 'e) collaborators \<Rightarrow> 'w world \<Rightarrow>
     (EncryptedSplit option \<times> error option) outcome \<times> 'w world" where
  "Finish env s =
     (case err (attachmentProc s) of
        Some e \<Rightarrow> (Returns (None, Some e), s)
      | None \<Rightarrow>
          (case w (attachmentProc s) of
             None \<Rightarrow> (Panics NilDereference, s)
           | Some fe \<Rightarrow>
               (case WriteCloser_Close env fe (conduit s) of (fe', p1, e1) \<Rightarrow>
                  (let s1 = s\<lparr>attachmentProc := (attachmentProc s)\<lparr>w := Some fe'\<rparr>,
                             conduit := p1,
                             trace := trace s @ [EvCloseWriter]\<rparr>
                   in case pipe (attachmentProc s1) of
                        None \<Rightarrow> (Panics NilDereference, s1)
                      | Some pw \<Rightarrow>
                          (let s2 = s1\<lparr>conduit := PipeWriter_Close (conduit s1),
                                      trace := trace s1 @ [EvClosePipe]\<rparr>
                           in case WaitGroup_Wait env s2 of
                                (Returns u, s3) \<Rightarrow>
                                  (let s4 = (if garbageCollector (attachmentProc s3) > 0
                                             then s3\<lparr>trace := trace s3 @ [EvGC]\<rparr>
                                             else s3)
                                   in (Returns (split (attachmentProc s4), None), s4))
                              | (Panics p, s3) \<Rightarrow> (Panics p, s3)
                              | (Crashes p, s3) \<Rightarrow> (Crashes p, s3)
                              | (Deadlock, s3) \<Rightarrow> (Deadlock, s3))))))"

section \<open>encryptAttachment and its two entry points\<close>

text \<open>A pointer to the processor of the world; \<open>None\<close> is the nil pointer.\<close>

datatype ProcessorRef = ProcessorRef

text \<open>
  \<^verbatim>\<open>attachmentProc := &AttachmentProcessor{}
  attachmentProc.done.Add(1)
  attachmentProc.garbageCollector = garbageCollector
  hints := &openpgp.FileHints{FileName: fileName}
  config := &packet.Config{DefaultCipher: packet.CipherAES256, Time: pgp.getTimeGenerator()}
  reader, writer := io.Pipe()
  go func() { ... }()
  ew, encryptErr = openpgp.Encrypt(writer, publicKey.entities, nil, hints, config)
  if encryptErr != nil { return nil, encryptErr }
  attachmentProc.w = &ew
  attachmentProc.pipe = writer
  return attachmentProc, nil\<close>
  The goroutine is started before the front-end is built; it then waits for bytes on the
  read end of the conduit.
\<close>

definition encryptAttachment ::
  "('w, 'e) collaborators \<Rightarrow> GopenPGP \<Rightarrow> int \<Rightarrow> string \<Rightarrow> KeyRing \<Rightarrow> int \<Rightarrow> 'e store \<Rightarrow>
     (ProcessorRef option \<times> error option) \<times> 'w world" where
  "encryptAttachment env pgp estimatedSize fileName publicKey gc keys =
     (let ap0 = \<lparr>w = None, pipe = None, done_wg = 0, split = None,
                 garbageCollector = 0, err = None\<rparr>;
          ap1 = ap0\<lparr>done_wg := done_wg ap0 + 1\<rparr>;
          ap2 = ap1\<lparr>garbageCollector := gc\<rparr>;
          hints = \<lparr>FileName = fileName\<rparr>;
          config = \<lparr>DefaultCipher = CipherAES256, Time = getTimeGenerator pgp\<rparr>;
          s0 = \<lparr>attachmentProc = ap2,
                conduit = \<lparr>written = [], closed = False\<rparr>,
                split_task = Reading estimatedSize gc,
                trace = [EvGo]\<rparr>
      in case openpgp_Encrypt env (entities publicKey) keys hints config of
           Inl encryptErr \<Rightarrow> ((None, Some encryptErr), s0\<lparr>trace := trace s0 @ [EvEncrypt]\<rparr>)
         | Inr (header, fe) \<Rightarrow>
             ((Some ProcessorRef, None),
              s0\<lparr>attachmentProc := ap2\<lparr>w := Some fe, pipe := Some PipeWriter\<rparr>,
                 conduit := fst (PipeWriter_Write (conduit s0) header),
                 trace := trace s0 @ [EvEncrypt]\<rparr>))"

text \<open>
  \<^verbatim>\<open>ap, err := pgp.encryptAttachment(len(plainData), fileName, publicKey, -1)
  if err != nil { return nil, err }
  ap.Process(plainData)
  split, err := ap.Finish()
  if err != nil { return nil, err }
  return split, nil\<close>
\<close>

definition EncryptAttachment ::
  "('w, 'e) collaborators \<Rightarrow> GopenPGP \<Rightarrow> bytes \<Rightarrow> string \<Rightarrow> KeyRing \<Rightarrow> 'e store \<Rightarrow>
     (EncryptedSplit option \<times> error option) outcome \<times> 'w world" where
  "EncryptAttachment env pgp plainData fileName publicKey keys =
     (case encryptAttachment env pgp (int (length plainData)) fileName publicKey (- 1) keys of
        ((ap, Some e), s) \<Rightarrow> (Returns (None, Some e), s)
      | ((None, None), s) \<Rightarrow> (Panics NilDereference, s)
      | ((Some r, None), s) \<Rightarrow>
          (case Process env s plainData of
             (Returns u, s1) \<Rightarrow>
               (case Finish env s1 of
                  (Returns (sp, Some e), s2) \<Rightarrow> (Returns (None, Some e), s2)
                | (Returns (sp, None), s2) \<Rightarrow> (Returns (sp, None), s2)
                | (Panics p, s2) \<Rightarrow> (Panics p, s2)
                | (Crashes p, s2) \<Rightarrow> (Crashes p, s2)
                | (Deadlock, s2) \<Rightarrow> (Deadlock, s2))
           | (Panics p, s1) \<Rightarrow> (Panics p, s1)
           | (Crashes p, s1) \<Rightarrow> (Crashes p, s1)
           | (Deadlock, s1) \<Rightarrow> (Deadlock, s1)))"

text \<open>\<^verbatim>\<open>return pgp.encryptAttachment(estimatedSize, fileName, publicKey, 1<<20)\<close>\<close>

definition EncryptAttachmentLowMemory ::
  "('w, 'e) collaborators \<Rightarrow> GopenPGP \<Rightarrow> int \<Rightarrow> string \<Rightarrow> KeyRing \<Rightarrow> 'e store \<Rightarrow>
     (ProcessorRef option \<times> error option) \<times> 'w world" where
  "EncryptAttachmentLowMemory env pgp estimatedSize fileName publicKey keys =
     encryptAttachment env pgp estimatedSize fileName publicKey (push_bit 20 1) keys"

section \<open>DecryptAttachment\<close>

text \<open>\<open>[]byte(passphrase)\<close>: the bytes of the string.\<close>

definition bytes_of :: "string \<Rightarrow> bytes" where
  "bytes_of str = map of_char str"

text \<open>The collaborators called, in order, with the stream handed to \<open>ReadMessage\<close>.\<close>

datatype call = CallUnlock | CallReadMessage bytes | CallReadAll

text \<open>
  \<^verbatim>\<open>privKeyEntries := kr.entities
  if err := kr.Unlock([]byte(passphrase)); err != nil {
      err = fmt.Errorf("gopenpgp: cannot decrypt attachment: %v", err)
      return nil, err
  }
  keyReader := bytes.NewReader(keyPacket)
  dataReader := bytes.NewReader(dataPacket)
  encryptedReader := io.MultiReader(keyReader, dataReader)
  config := &packet.Config{Time: pgp.getTimeGenerator()}
  md, err := openpgp.ReadMessage(encryptedReader, privKeyEntries, nil, config)
  if err != nil { return nil, err }
  decrypted := md.UnverifiedBody
  b, err := ioutil.ReadAll(decrypted)
  if err != nil { return nil, err }
  return b, nil\<close>
  \<open>privKeyEntries\<close> is the slice of pointers read before \<open>Unlock\<close>; \<open>ReadMessage\<close> follows
  the pointers into the store as \<open>Unlock\<close> left it. \<open>ReadMessage\<close> is given what the
  combined reader delivers.
\<close>

definition DecryptAttachment ::
  "('w, 'e) collaborators \<Rightarrow> GopenPGP \<Rightarrow> bytes \<Rightarrow> bytes \<Rightarrow> KeyRing \<Rightarrow> string \<Rightarrow> 'e store \<Rightarrow>
     (bytes option \<times> error option) \<times> 'e store \<times> call list" where
  "DecryptAttachment env pgp keyPacket dataPacket kr passphrase keys =
     (let privKeyEntries = entities kr
      in case Unlock env kr (bytes_of passphrase) keys of
           (Some e, keys') \<Rightarrow>
             ((None, Some (Errorf ''gopenpgp: cannot decrypt attachment: '' e)),
              keys', [CallUnlock])
         | (None, keys') \<Rightarrow>
             (let keyReader = NewReader keyPacket;
                  dataReader = NewReader dataPacket;
                  encryptedReader = MultiReader keyReader dataReader;
                  config = \<lparr>DefaultCipher = 0, Time = getTimeGenerator pgp\<rparr>;
                  stream = fst (ReadAll encryptedReader)
              in case openpgp_ReadMessage env stream privKeyEntries keys' config of
                   Inl e \<Rightarrow> ((None, Some e), keys', [CallUnlock, CallReadMessage stream])
                 | Inr md \<Rightarrow>
                     (case ReadAll (UnverifiedBody md) of
                        (b, Some e) \<Rightarrow>
                          ((None, Some e), keys',
                           [CallUnlock, CallReadMessage stream, CallReadAll])
                      | (b, None) \<Rightarrow>
                          ((Some b, None), keys',
                           [CallUnlock, CallReadMessage stream, CallReadAll]))))"

text \<open>The decryption of spec section 4.4 in its own words: once the key ring is unlocked,
  concatenate the key packet and the data packet, parse and decrypt that stream with the
  private key entities of the key ring, read the body to its end and return it; fail when
  parsing fails or when the body cannot be read to its end.\<close>

definition Decrypt_spec ::
  "('w, 'e) collaborators \<Rightarrow> GopenPGP \<Rightarrow> bytes \<Rightarrow> bytes \<Rightarrow> KeyRing \<Rightarrow> 'e store \<Rightarrow>
     bytes option \<times> error option" where
  "Decrypt_spec env pgp keyPacket dataPacket kr unlocked =
     (case openpgp_ReadMessage env (keyPacket @ dataPacket) (entities kr) unlocked
             \<lparr>DefaultCipher = 0, Time = getTimeGenerator pgp\<rparr> of
        Inl parseError \<Rightarrow> (None, Some parseError)
      | Inr md \<Rightarrow>
          (case ReadAll (UnverifiedBody md) of
             (body, None) \<Rightarrow> (Some body, None)
           | (partial, Some readError) \<Rightarrow> (None, Some readError)))"

section \<open>Unlocking a key ring\<close>

text \<open>Modelled from the spec: \<open>KeyRing.Unlock\<close> and the key entities are defined outside
  \<open>attachment.go\<close>. The spec says that a key ring holds one or more key entities and may be
  locked, requiring a passphrase (section 3), and that unlocking it with the passphrase
  fails with an authentication error if the passphrase is wrong (sections 4.4 and 7). An
  entity here is locked or not and has the passphrase that unlocks it; unlocking goes through
  the entities of the ring in order and stops at the first locked one that the passphrase
  does not open.\<close>

record Entity =
  Encrypted :: bool
  Passphrase :: bytes

definition AuthenticationError :: error where
  "AuthenticationError = Error ''wrong passphrase''"

fun unlock_entities :: "addr list \<Rightarrow> bytes \<Rightarrow> Entity store \<Rightarrow> error option \<times> Entity store" where
  "unlock_entities [] passphrase keys = (None, keys)"
| "unlock_entities (a # as) passphrase keys =
     (case keys a of
        None \<Rightarrow> unlock_entities as passphrase keys
      | Some e \<Rightarrow>
          (if \<not> Encrypted e then unlock_entities as passphrase keys
           else if Passphrase e = passphrase
             then unlock_entities as passphrase (keys(a \<mapsto> e\<lparr>Encrypted := False\<rparr>))
             else (Some AuthenticationError, keys)))"

definition Unlock_spec :: "KeyRing \<Rightarrow> bytes \<Rightarrow> Entity store \<Rightarrow> error option \<times> Entity store" where
  "Unlock_spec kr passphrase keys = unlock_entities (entities kr) passphrase keys"

definition locked :: "KeyRing \<Rightarrow> Entity store \<Rightarrow> bool" where
  "locked kr keys = (\<exists>a \<in> set (entities kr). \<exists>e. keys a = Some e \<and> Encrypted e)"

definition incorrect :: "bytes \<Rightarrow> KeyRing \<Rightarrow> Entity store \<Rightarrow> bool" where
  "incorrect passphrase kr keys =
     (\<forall>a \<in> set (entities kr). \<forall>e. keys a = Some e \<and> Encrypted e \<longrightarrow> Passphrase e \<noteq> passphrase)"

section \<open>Streaming a plaintext in chunks\<close>

text \<open>A caller of the streaming path calls \<open>Process\<close> once per chunk, in order, and then
  \<open>Finish\<close>. A panic ends the sequence.\<close>

fun Process_chunks ::
  "('w, 'e) collaborators \<Rightarrow> 'w world \<Rightarrow> bytes list \<Rightarrow> unit outcome \<times> 'w world" where
  "Process_chunks env s [] = (Returns (), s)"
| "Process_chunks env s (c # cs) =
     (case Process env s c of
        (Returns u, s') \<Rightarrow> Process_chunks env s' cs
      | (Panics p, s') \<Rightarrow> (Panics p, s')
      | (Crashes p, s') \<Rightarrow> (Crashes p, s')
      | (Deadlock, s') \<Rightarrow> (Deadlock, s'))"

definition stream_attachment ::
  "('w, 'e) collaborators \<Rightarrow> GopenPGP \<Rightarrow> int \<Rightarrow> string \<Rightarrow> KeyRing \<Rightarrow> 'e store \<Rightarrow> bytes list \<Rightarrow>
     (EncryptedSplit option \<times> error option) outcome \<times> 'w world" where
  "stream_attachment env pgp estimatedSize fileName publicKey keys chunks =
     (case EncryptAttachmentLowMemory env pgp estimatedSize fileName publicKey keys of
        ((ap, Some e), s) \<Rightarrow> (Returns (None, Some e), s)
      | ((None, None), s) \<Rightarrow> (Panics NilDereference, s)
      | ((Some r, None), s) \<Rightarrow>
          (case Process_chunks env s chunks of
             (Returns u, s1) \<Rightarrow> Finish env s1
           | (Panics p, s1) \<Rightarrow> (Panics p, s1)
           | (Crashes p, s1) \<Rightarrow> (Crashes p, s1)
           | (Deadlock, s1) \<Rightarrow> (Deadlock, s1)))"

section \<open>What the session relies on\<close>

text \<open>A processor as the entry points hand it out and as \<open>Process\<close> and \<open>Finish\<close> leave it:
  the front-end and the write end of the conduit are set, the counter of the WaitGroup is
  one while the task reads and zero once it has finished or died, and no split is stored
  unless the task has finished.\<close>

definition constructed :: "'w world \<Rightarrow> bool" where
  "constructed s =
     (w (attachmentProc s) \<noteq> None \<and> pipe (attachmentProc s) \<noteq> None \<and>
      (case split_task s of
         Reading estimatedSize gc \<Rightarrow>
           done_wg (attachmentProc s) = 1 \<and> split (attachmentProc s) = None
       | Finished \<Rightarrow> done_wg (attachmentProc s) = 0
       | NotStarted \<Rightarrow> False
       | Dead p \<Rightarrow> done_wg (attachmentProc s) = 0 \<and> split (attachmentProc s) = None))"

text \<open>The task has ended: it runs no more of its body, because it has finished or because
  it has died of a panic.\<close>

definition ended :: "task \<Rightarrow> bool" where
  "ended t = (case t of
                NotStarted \<Rightarrow> False
              | Reading estimatedSize gc \<Rightarrow> False
              | Finished \<Rightarrow> True
              | Dead p \<Rightarrow> True)"

text \<open>What a caller can do with a processor it has been handed: any sequence of calls of
  \<open>Process\<close> and \<open>Finish\<close>. The sequence goes on whatever the outcome of a call, since a
  caller may recover from a panic and call again.\<close>

datatype use = UseProcess bytes | UseFinish

fun after :: "('w, 'e) collaborators \<Rightarrow> 'w world \<Rightarrow> use list \<Rightarrow> 'w world" where
  "after env s [] = s"
| "after env s (UseProcess plainData # uses) = after env (snd (Process env s plainData)) uses"
| "after env s (UseFinish # uses) = after env (snd (Finish env s)) uses"

text \<open>The events that one call adds to the trace.\<close>

definition added :: "'w world \<Rightarrow> 'w world \<Rightarrow> event list" where
  "added s s' = drop (length (trace s)) (trace s')"

text \<open>The ciphertext the front-end emits for a sequence of writes, as long as none fails.\<close>

fun ew_stream :: "('w, 'e) collaborators \<Rightarrow> 'w \<Rightarrow> bytes list \<Rightarrow> (bytes \<times> 'w) option" where
  "ew_stream env fe [] = Some ([], fe)"
| "ew_stream env fe (c # cs) =
     (case ew_Write env fe c of
        (out, fe', Some e) \<Rightarrow> None
      | (out, fe', None) \<Rightarrow>
          (case ew_stream env fe' cs of
             None \<Rightarrow> None
           | Some (outs, fe'') \<Rightarrow> Some (out @ outs, fe'')))"

text \<open>The guarantee of the OpenPGP library that the round trip needs: whatever the chunks
  written to a front-end built for the recipient, the stream it has emitted when it is
  closed is a message that \<open>ReadMessage\<close> opens with the private keys, and the body of that
  message reads to its end as the chunks in order.\<close>

definition openpgp_round_trip ::
  "('w, 'e) collaborators \<Rightarrow> bytes \<Rightarrow> 'w \<Rightarrow> addr list \<Rightarrow> 'e store \<Rightarrow> Config \<Rightarrow> bool" where
  "openpgp_round_trip env header fe0 privKeyEntries keys config =
     (\<forall>chunks. \<exists>out fe md.
        ew_stream env fe0 chunks = Some (out, fe) \<and>
        openpgp_ReadMessage env (header @ out @ fst (ew_Close env fe)) privKeyEntries keys config
          = Inr md \<and>
        ReadAll (UnverifiedBody md) = (concat chunks, None))"

text \<open>Modelled from the spec: \<open>SeparateKeyAndData\<close> is defined outside \<open>attachment.go\<close>. The
  spec (sections 3 and 4.3) has it return the two halves of the stream as independent byte
  sequences such that the key packet followed by the data packet is again a valid
  decryptable message, for any size hint and any reclamation threshold. Here: every stream
  that is a readable message is split without error, and the two packets in that order read
  as the same message.\<close>

definition separator_keeps_message ::
  "('w, 'e) collaborators \<Rightarrow> addr list \<Rightarrow> 'e store \<Rightarrow> Config \<Rightarrow> bool" where
  "separator_keeps_message env privKeyEntries keys config =
     (\<forall>stream estimatedSize gc md.
        openpgp_ReadMessage env stream privKeyEntries keys config = Inr md \<longrightarrow>
        (\<exists>sp. SeparateKeyAndData env stream estimatedSize gc = (Some sp, None) \<and>
              openpgp_ReadMessage env (KeyPacket sp @ DataPacket sp) privKeyEntries keys config
                = Inr md))"

section \<open>A sample of collaborators\<close>

text \<open>A small instance of the collaborators on which the definitions above can be run. A
  message is the byte \<open>0xC1\<close>, standing for the key packet, followed by the data packet: each
  byte of the plaintext raised by one, and a closing byte \<open>0xFF\<close> that the front-end emits
  when it is closed. The front-end counts the bytes it has taken. Building it fails without
  recipients; reading a message needs an unlocked private key. A caller released by a
  dying task does not get to return.\<close>

definition sample_Encrypt ::
  "addr list \<Rightarrow> Entity store \<Rightarrow> FileHints \<Rightarrow> Config \<Rightarrow> error + (bytes \<times> nat)" where
  "sample_Encrypt recipients keys hints config =
     (if recipients = [] then Inl (Error ''no recipient'') else Inr ([0xC1], 0))"

definition sample_Write :: "nat \<Rightarrow> bytes \<Rightarrow> bytes \<times> nat \<times> error option" where
  "sample_Write n b = (map (\<lambda>x. x + 1) b, n + length b, None)"

definition sample_Close :: "nat \<Rightarrow> bytes \<times> nat \<times> error option" where
  "sample_Close n = ([0xFF], n, None)"

definition sample_Separate :: "bytes \<Rightarrow> int \<Rightarrow> int \<Rightarrow> EncryptedSplit option \<times> error option" where
  "sample_Separate stream estimatedSize gc =
     (case stream of
        [] \<Rightarrow> (None, Some (Error ''truncated''))
      | k # d \<Rightarrow>
          (if k \<noteq> 0xC1 then (None, Some (Error ''malformed''))
           else if d = [] then (None, Some (Error ''truncated''))
           else (Some \<lparr>DataPacket = d, KeyPacket = [k], Algo = []\<rparr>, None)))"

definition sample_ReadMessage ::
  "bytes \<Rightarrow> addr list \<Rightarrow> Entity store \<Rightarrow> Config \<Rightarrow> error + MessageDetails" where
  "sample_ReadMessage stream privKeyEntries keys config =
     (case stream of
        [] \<Rightarrow> Inl (Error ''truncated'')
      | k # d \<Rightarrow>
          (if k \<noteq> 0xC1 then Inl (Error ''malformed'')
           else if d = [] \<or> last d \<noteq> 0xFF then Inl (Error ''truncated'')
           else if list_ex (\<lambda>a. case keys a of None \<Rightarrow> False | Some e \<Rightarrow> \<not> Encrypted e)
                     privKeyEntries
             then Inr \<lparr>UnverifiedBody = NewReader (map (\<lambda>x. x - 1) (butlast d))\<rparr>
             else Inl (Error ''no matching key'')))"

definition sample_env :: "(nat, Entity) collaborators" where
  "sample_env =
     \<lparr>openpgp_Encrypt = sample_Encrypt, ew_Write = sample_Write, ew_Close = sample_Close,
      SeparateKeyAndData = sample_Separate, Unlock = Unlock_spec,
      openpgp_ReadMessage = sample_ReadMessage, caller_wins_race = False\<rparr>"

text \<open>The same with a front-end whose first byte is not a packet, so that the separator
  rejects the stream; that one again with a caller that wins the race against the end of
  the process; and the sample with a separator that reports an error next to a split.\<close>

definition malformed_env :: "(nat, Entity) collaborators" where
  "malformed_env = sample_env\<lparr>openpgp_Encrypt := (\<lambda>recipients keys hints config. Inr ([0], 0))\<rparr>"

definition racing_env :: "(nat, Entity) collaborators" where
  "racing_env = malformed_env\<lparr>caller_wins_race := True\<rparr>"

definition lenient_env :: "(nat, Entity) collaborators" where
  "lenient_env =
     sample_env\<lparr>SeparateKeyAndData :=
       (\<lambda>stream estimatedSize gc.
          (Some \<lparr>DataPacket = tl stream, KeyPacket = take 1 stream, Algo = []\<rparr>,
           Some (Error ''trailing bytes'')))\<rparr>"

text \<open>A key ring of one entity at address 0, locked under the passphrase \<open>pw\<close>.\<close>

definition sample_ring :: KeyRing where
  "sample_ring = \<lparr>entities = [0]\<rparr>"

definition sample_keys :: "Entity store" where
  "sample_keys = [0 \<mapsto> \<lparr>Encrypted = True, Passphrase = bytes_of ''pw''\<rparr>]"

definition sample_pgp :: GopenPGP where
  "sample_pgp = \<lparr>getTimeGenerator = 0\<rparr>"

text \<open>Sample worlds: a session just built for three bytes of plaintext, the same session
  after the one-shot encryption has finished, and a session built in low-memory mode in
  which an error has been recorded.\<close>

definition sample_started :: "nat world" where
  "sample_started =
     snd (encryptAttachment sample_env sample_pgp 3 ''f'' sample_ring (- 1) sample_keys)"

definition sample_finished :: "nat world" where
  "sample_finished =
     snd (EncryptAttachment sample_env sample_pgp [1, 2, 3] ''f'' sample_ring sample_keys)"

definition sample_failed :: "nat world" where
  "sample_failed =
     (let s = snd (EncryptAttachmentLowMemory sample_env sample_pgp 3 ''f'' sample_ring sample_keys)
      in s\<lparr>attachmentProc := (attachmentProc s)\<lparr>err := Some (Error ''recorded'')\<rparr>\<rparr>)"

lemmas run_defs =
  encryptAttachment_def EncryptAttachment_def EncryptAttachmentLowMemory_def
  Process_def Finish_def WaitGroup_Wait_def run_split_task_def split_task_body_def
  WaitGroup_Done_def WriteCloser_Write_def WriteCloser_Close_def PipeWriter_Write_def
  PipeWriter_Close_def first_error_def Let_def

lemmas sample_defs =
  sample_env_def sample_Encrypt_def sample_Write_def sample_Close_def sample_Separate_def
  sample_ReadMessage_def sample_ring_def sample_keys_def sample_pgp_def Unlock_spec_def

section \<open>Facts about readers, the trace and the join\<close>

lemma ReadAll_NewReader: "ReadAll (NewReader b) = (b, None)"
  by (simp add: NewReader_def)

lemma ReadAll_MultiReader_NewReader:
  "fst (ReadAll (MultiReader (NewReader k) (NewReader d))) = k @ d"
  by (simp add: NewReader_def)

lemma Wait_closed_Reading:
  assumes "split_task s = Reading a b" and "done_wg (attachmentProc s) = 1"
    and "closed (conduit s)"
    and "SeparateKeyAndData env (written (conduit s)) a b = (Some sp, e)"
  shows "WaitGroup_Wait env s =
           (Returns (),
            s\<lparr>attachmentProc :=
                 (if err (attachmentProc s) \<noteq> None then (attachmentProc s)\<lparr>err := e\<rparr>
                  else attachmentProc s)\<lparr>split := Some (sp\<lparr>Algo := AES256\<rparr>), done_wg := 0\<rparr>,
              split_task := Finished,
              trace := trace s @ [EvSeparate (written (conduit s)), EvDone, EvWait]\<rparr>)"
  using assms
  by (simp add: WaitGroup_Wait_def run_split_task_def split_task_body_def WaitGroup_Done_def
      Let_def)

lemma Wait_closed_Reading_nil:
  assumes "split_task s = Reading a b" and "done_wg (attachmentProc s) = 1"
    and "closed (conduit s)"
    and "SeparateKeyAndData env (written (conduit s)) a b = (None, e)"
  shows "WaitGroup_Wait env s =
           (if caller_wins_race env
            then (Returns (),
                  s\<lparr>attachmentProc :=
                       (if err (attachmentProc s) \<noteq> None then (attachmentProc s)\<lparr>err := e\<rparr>
                        else attachmentProc s)\<lparr>done_wg := 0\<rparr>,
                    split_task := Dead NilDereference,
                    trace := trace s @ [EvSeparate (written (conduit s)), EvDone, EvWait]\<rparr>)
            else (Crashes NilDereference,
                  s\<lparr>attachmentProc :=
                       (if err (attachmentProc s) \<noteq> None then (attachmentProc s)\<lparr>err := e\<rparr>
                        else attachmentProc s)\<lparr>done_wg := 0\<rparr>,
                    split_task := Dead NilDereference,
                    trace := trace s @ [EvSeparate (written (conduit s)), EvDone]\<rparr>))"
  using assms
  by (simp add: WaitGroup_Wait_def run_split_task_def split_task_body_def WaitGroup_Done_def
      Let_def)

lemma Wait_Finished:
  assumes "done_wg (attachmentProc s) = 0"
  shows "WaitGroup_Wait env s = (Returns (), s\<lparr>trace := trace s @ [EvWait]\<rparr>)"
  using assms by (simp add: WaitGroup_Wait_def)

lemma sample_started_eq:
  "sample_started =
     \<lparr>attachmentProc =
        \<lparr>w = Some 0, pipe = Some PipeWriter, done_wg = 1, split = None,
         garbageCollector = - 1, err = None\<rparr>,
      conduit = \<lparr>written = [0xC1], closed = False\<rparr>,
      split_task = Reading 3 (- 1),
      trace = [EvGo, EvEncrypt]\<rparr>"
  by (simp add: sample_started_def run_defs sample_defs)

lemma sample_finished_eq:
  "sample_finished =
      \<lparr>attachmentProc =
         \<lparr>w = Some 3, pipe = Some PipeWriter, done_wg = 0,
          split = Some \<lparr>DataPacket = [2, 3, 4, 0xFF], KeyPacket = [0xC1], Algo = AES256\<rparr>,
          garbageCollector = - 1, err = None\<rparr>,
       conduit = \<lparr>written = [0xC1, 2, 3, 4, 0xFF], closed = True\<rparr>,
       split_task = Finished,
       trace = [EvGo, EvEncrypt, EvWrite [1, 2, 3], EvCloseWriter, EvClosePipe,
                EvSeparate [0xC1, 2, 3, 4, 0xFF], EvDone, EvWait]\<rparr>"
  by (simp add: sample_finished_def run_defs sample_defs)

lemma sample_failed_eq:
  "sample_failed =
     \<lparr>attachmentProc =
        \<lparr>w = Some 0, pipe = Some PipeWriter, done_wg = 1, split = None,
         garbageCollector = 1048576, err = Some (Error ''recorded'')\<rparr>,
      conduit = \<lparr>written = [0xC1], closed = False\<rparr>,
      split_task = Reading 3 1048576,
      trace = [EvGo, EvEncrypt]\<rparr>"
  by (simp add: sample_failed_def run_defs sample_defs)

lemma Finish_sample_started:
  "fst (Finish sample_env sample_started) =
     Returns (Some \<lparr>DataPacket = [0xFF], KeyPacket = [0xC1], Algo = AES256\<rparr>, None)"
  by (simp add: sample_started_eq Finish_def WaitGroup_Wait_def run_split_task_def split_task_body_def
        WaitGroup_Done_def WriteCloser_Close_def PipeWriter_Write_def
        PipeWriter_Close_def first_error_def Let_def sample_defs)

section \<open>Processors handed out by the entry points\<close>

lemma encryptAttachment_constructed:
  assumes "fst (encryptAttachment env pgp estimatedSize fileName publicKey gc keys) = (Some r, None)"
  shows "constructed (snd (encryptAttachment env pgp estimatedSize fileName publicKey gc keys))"
    and "err (attachmentProc
           (snd (encryptAttachment env pgp estimatedSize fileName publicKey gc keys))) = None"
  using assms
  by (auto simp: encryptAttachment_def constructed_def Let_def split: sum.splits)

lemma Process_constructed:
  assumes "constructed s"
  shows "constructed (snd (Process env s plainData))"
    and "err (attachmentProc (snd (Process env s plainData))) = err (attachmentProc s)"
  using assms
  by (auto simp: Process_def constructed_def Let_def
      split: option.splits prod.splits task.splits)

lemma run_split_task_err:
  "err (attachmentProc s) = None \<Longrightarrow> err (attachmentProc (run_split_task env a b s)) = None"
  by (auto simp: run_split_task_def split_task_body_def Let_def
      split: prod.splits option.splits)

lemma Wait_err:
  "err (attachmentProc s) = None \<Longrightarrow> err (attachmentProc (snd (WaitGroup_Wait env s))) = None"
  by (auto simp: WaitGroup_Wait_def Let_def run_split_task_err split: task.splits)

lemma Finish_err:
  assumes "err (attachmentProc s) = None"
  shows "err (attachmentProc (snd (Finish env s))) = None"
proof (cases "w (attachmentProc s)")
  case None
  with assms show ?thesis by (simp add: Finish_def)
next
  case (Some fe)
  obtain fe' p1 e1 where cl: "WriteCloser_Close env fe (conduit s) = (fe', p1, e1)"
    by (cases "WriteCloser_Close env fe (conduit s)") auto
  show ?thesis
  proof (cases "pipe (attachmentProc s)")
    case None
    with assms Some cl show ?thesis by (simp add: Finish_def)
  next
    case pw: (Some pw)
    define s2 where "s2 = s\<lparr>attachmentProc := (attachmentProc s)\<lparr>w := Some fe'\<rparr>,
      conduit := PipeWriter_Close p1, trace := trace s @ [EvCloseWriter, EvClosePipe]\<rparr>"
    have e2: "err (attachmentProc s2) = None"
      using assms by (simp add: s2_def)
    obtain oc s3 where ws: "WaitGroup_Wait env s2 = (oc, s3)"
      by (cases "WaitGroup_Wait env s2") auto
    with Wait_err [OF e2, of env] have "err (attachmentProc s3) = None"
      by simp
    with ws assms Some pw cl show ?thesis
      by (cases oc) (simp_all add: Finish_def s2_def Let_def)
  qed
qed

lemma Finish_constructed:
  assumes "constructed s"
  shows "constructed (snd (Finish env s))"
proof (cases "err (attachmentProc s)")
  case (Some e)
  with assms show ?thesis by (simp add: Finish_def)
next
  case None
  from assms(1) obtain fe pw where fe: "w (attachmentProc s) = Some fe"
    and pw: "pipe (attachmentProc s) = Some pw"
    by (auto simp: constructed_def)
  obtain fe' p1 e1 where cl: "WriteCloser_Close env fe (conduit s) = (fe', p1, e1)"
    by (cases "WriteCloser_Close env fe (conduit s)") auto
  define s2 where "s2 = s\<lparr>attachmentProc := (attachmentProc s)\<lparr>w := Some fe'\<rparr>,
      conduit := PipeWriter_Close p1, trace := trace s @ [EvCloseWriter, EvClosePipe]\<rparr>"
  have fin: "Finish env s =
     (case WaitGroup_Wait env s2 of
        (Returns u, s3) \<Rightarrow>
          (Returns (split (attachmentProc s3), None),
           if garbageCollector (attachmentProc s3) > 0 then s3\<lparr>trace := trace s3 @ [EvGC]\<rparr> else s3)
      | (Panics p, s3) \<Rightarrow> (Panics p, s3)
      | (Crashes p, s3) \<Rightarrow> (Crashes p, s3)
      | (Deadlock, s3) \<Rightarrow> (Deadlock, s3))"
    using None fe pw cl
    by (simp add: Finish_def s2_def Let_def split: prod.splits outcome.splits)
  have cls: "closed (conduit s2)" by (simp add: s2_def PipeWriter_Close_def)
  show ?thesis
  proof (cases "split_task s")
    case NotStarted
    with assms(1) show ?thesis by (simp add: constructed_def)
  next
    case (Dead p)
    with assms(1) have d0: "done_wg (attachmentProc s) = 0"
      and sn: "split (attachmentProc s) = None"
      by (simp_all add: constructed_def)
    from d0 have "done_wg (attachmentProc s2) = 0"
      by (simp add: s2_def)
    from Wait_Finished[OF this, of env] Dead d0 sn pw show ?thesis
      by (simp add: fin s2_def constructed_def)
  next
    case Finished
    with assms(1) have d0: "done_wg (attachmentProc s) = 0"
      by (simp add: constructed_def)
    then have "done_wg (attachmentProc s2) = 0"
      by (simp add: s2_def)
    from Wait_Finished[OF this, of env] Finished d0 pw show ?thesis
      by (simp add: fin s2_def constructed_def)
  next
    case (Reading a b)
    with assms(1) have d: "done_wg (attachmentProc s2) = 1" and t: "split_task s2 = Reading a b"
      and sn: "split (attachmentProc s) = None"
      by (simp_all add: constructed_def s2_def)
    obtain sp e where sep: "SeparateKeyAndData env (written (conduit s2)) a b = (sp, e)"
      by (cases "SeparateKeyAndData env (written (conduit s2)) a b") auto
    show ?thesis
    proof (cases sp)
      case None
      with Wait_closed_Reading_nil[OF t d cls, of env e] sep pw sn
      show ?thesis
        by (simp add: fin s2_def constructed_def)
    next
      case (Some x)
      with Wait_closed_Reading[OF t d cls, of env x e] sep pw
      show ?thesis
        by (simp add: fin s2_def constructed_def)
    qed
  qed
qed

text \<open>A processor handed out by \<open>encryptAttachment\<close> has no recorded error, and no call
  records one: \<open>Finish\<close> on it never returns an error.\<close>

lemma Finish_returns_no_error:
  assumes "err (attachmentProc s) = None"
  shows "fst (Finish env s) \<noteq> Returns (sp, Some e)"
  using assms
  by (auto simp: Finish_def Let_def split: option.splits prod.splits outcome.splits)

section \<open>Process\<close>

text \<open>Claim C9. Whenever the write into the encryption front-end fails with an error,
  \<open>Process\<close> panics with that very error, and \<open>Process\<close> returns normally only when the
  write did not fail: a failed write is never passed over.\<close>

theorem Process_write_failure_is_fatal:
  assumes "w (attachmentProc s) = Some fe"
  shows "(fst (Process env s plainData) = Panics (PanicError e)
            \<longleftrightarrow> snd (snd (WriteCloser_Write env fe (conduit s) plainData)) = Some e)
       \<and> (fst (Process env s plainData) = Returns ()
            \<longleftrightarrow> snd (snd (WriteCloser_Write env fe (conduit s) plainData)) = None)"
  using assms by (auto simp: Process_def Let_def split: prod.splits option.splits)

theorem Process_write_failure_is_fatal_witness:
  "w (attachmentProc sample_finished) = Some 3
   \<and> fst (Process sample_env sample_finished [4]) = Panics (PanicError ErrClosedPipe)"
proof -
  have h: "w (attachmentProc sample_finished) = Some 3"
    by (simp add: sample_finished_eq)
  have f: "snd (snd (WriteCloser_Write sample_env 3 (conduit sample_finished) [4]))
             = Some ErrClosedPipe"
    by (simp add: sample_finished_eq WriteCloser_Write_def PipeWriter_Write_def
        first_error_def sample_Write_def sample_env_def)
  show ?thesis
    using h f Process_write_failure_is_fatal [OF h, of sample_env "[4]" ErrClosedPipe]
    by simp
qed

section \<open>Finish\<close>

text \<open>Claim C4. With a recorded error, \<open>Finish\<close> returns that error and leaves the whole
  world as it was: the front-end is not closed, the conduit is not closed, the task is not
  waited for, nothing is added to the trace. A second call does the same.\<close>

theorem Finish_recorded_error:
  assumes "err (attachmentProc s) = Some e"
  shows "Finish env s = (Returns (None, Some e), s)
       \<and> Finish env (snd (Finish env s)) = (Returns (None, Some e), s)"
  using assms by (simp add: Finish_def)

theorem Finish_recorded_error_witness:
  "err (attachmentProc sample_failed) = Some (Error ''recorded'')
   \<and> Finish sample_env sample_failed = (Returns (None, Some (Error ''recorded'')), sample_failed)
   \<and> Finish sample_env (snd (Finish sample_env sample_failed))
       = (Returns (None, Some (Error ''recorded'')), sample_failed)"
proof -
  have h: "err (attachmentProc sample_failed) = Some (Error ''recorded'')"
    by (simp add: sample_failed_eq)
  show ?thesis
    using h Finish_recorded_error [OF h, of sample_env] by simp
qed

text \<open>Claim C5. On a constructed processor without a recorded error, \<open>Finish\<close> first closes
  the front-end and then the write end of the conduit. When it returns, the task has ended
  and the counter is zero, the conduit is closed, and the events of the call are, in
  order: the two closes, the task's read of the whole stream and its completion signal
  (when the task had not ended before), the return of the wait, and the reclamation pass
  when the threshold is positive. The task has then finished, or had ended before the call,
  or has died at the nil dereference and the caller, released by the deferred \<open>Done\<close>, has
  won the race against the end of the process. Whenever \<open>Finish\<close> returns a split, the task
  has finished.\<close>

theorem Finish_closes_then_joins:
  assumes "constructed s" and "err (attachmentProc s) = None"
  shows "take 2 (added s (snd (Finish env s))) = [EvCloseWriter, EvClosePipe]
       \<and> (\<forall>r. fst (Finish env s) = Returns r \<longrightarrow>
             ended (split_task (snd (Finish env s)))
           \<and> done_wg (attachmentProc (snd (Finish env s))) = 0
           \<and> closed (conduit (snd (Finish env s)))
           \<and> added s (snd (Finish env s)) =
               [EvCloseWriter, EvClosePipe]
               @ (case split_task s of
                    Reading a b \<Rightarrow> [EvSeparate (written (conduit (snd (Finish env s)))), EvDone]
                  | _ \<Rightarrow> [])
               @ [EvWait]
               @ (if 0 < garbageCollector (attachmentProc s) then [EvGC] else [])
           \<and> (split_task (snd (Finish env s)) = Finished
              \<or> split_task (snd (Finish env s)) = split_task s
              \<or> split_task (snd (Finish env s)) = Dead NilDereference \<and> caller_wins_race env)
           \<and> (fst r \<noteq> None \<longrightarrow> split_task (snd (Finish env s)) = Finished))"
proof -
  from assms(1) obtain fe pw where fe: "w (attachmentProc s) = Some fe"
    and pw: "pipe (attachmentProc s) = Some pw"
    by (auto simp: constructed_def)
  obtain fe' p1 e1 where cl: "WriteCloser_Close env fe (conduit s) = (fe', p1, e1)"
    by (cases "WriteCloser_Close env fe (conduit s)") auto
  define s2 where "s2 = s\<lparr>attachmentProc := (attachmentProc s)\<lparr>w := Some fe'\<rparr>,
      conduit := PipeWriter_Close p1, trace := trace s @ [EvCloseWriter, EvClosePipe]\<rparr>"
  have fin: "Finish env s =
     (case WaitGroup_Wait env s2 of
        (Returns u, s3) \<Rightarrow>
          (Returns (split (attachmentProc s3), None),
           if garbageCollector (attachmentProc s3) > 0 then s3\<lparr>trace := trace s3 @ [EvGC]\<rparr> else s3)
      | (Panics p, s3) \<Rightarrow> (Panics p, s3)
      | (Crashes p, s3) \<Rightarrow> (Crashes p, s3)
      | (Deadlock, s3) \<Rightarrow> (Deadlock, s3))"
    using assms(2) fe pw cl
    by (simp add: Finish_def s2_def Let_def split: prod.splits outcome.splits)
  have cls: "closed (conduit s2)" by (simp add: s2_def PipeWriter_Close_def)
  show ?thesis
  proof (cases "split_task s")
    case NotStarted
    with assms(1) show ?thesis by (simp add: constructed_def)
  next
    case (Dead p)
    with assms(1) have d0: "done_wg (attachmentProc s) = 0"
      and sn: "split (attachmentProc s) = None"
      by (simp_all add: constructed_def)
    from d0 have "done_wg (attachmentProc s2) = 0"
      by (simp add: s2_def)
    from Wait_Finished[OF this, of env] Dead d0 sn show ?thesis
      by (simp add: fin s2_def added_def PipeWriter_Close_def ended_def)
  next
    case Finished
    with assms(1) have d0: "done_wg (attachmentProc s) = 0"
      by (simp add: constructed_def)
    then have "done_wg (attachmentProc s2) = 0"
      by (simp add: s2_def)
    from Wait_Finished[OF this, of env] Finished d0 show ?thesis
      by (simp add: fin s2_def added_def PipeWriter_Close_def ended_def)
  next
    case (Reading a b)
    with assms(1) have d: "done_wg (attachmentProc s2) = 1" and t: "split_task s2 = Reading a b"
      and sn: "split (attachmentProc s) = None"
      by (simp_all add: constructed_def s2_def)
    obtain sp e where sep: "SeparateKeyAndData env (written (conduit s2)) a b = (sp, e)"
      by (cases "SeparateKeyAndData env (written (conduit s2)) a b") auto
    show ?thesis
    proof (cases sp)
      case None
      with Wait_closed_Reading_nil[OF t d cls, of env e] sep Reading assms(2) sn
      show ?thesis
        by (simp add: fin s2_def added_def PipeWriter_Close_def ended_def)
    next
      case (Some x)
      with Wait_closed_Reading[OF t d cls, of env x e] sep Reading assms(2)
      show ?thesis
        by (simp add: fin s2_def added_def PipeWriter_Close_def ended_def)
    qed
  qed
qed

lemma racing_started_eq:
  "snd (encryptAttachment racing_env sample_pgp 3 ''f'' sample_ring (- 1) sample_keys) =
     \<lparr>attachmentProc =
        \<lparr>w = Some 0, pipe = Some PipeWriter, done_wg = 1, split = None,
         garbageCollector = - 1, err = None\<rparr>,
      conduit = \<lparr>written = [0], closed = False\<rparr>,
      split_task = Reading 3 (- 1),
      trace = [EvGo, EvEncrypt]\<rparr>"
  by (simp add: racing_env_def malformed_env_def run_defs sample_defs)

lemma Finish_racing_started:
  "Finish racing_env
     (snd (encryptAttachment racing_env sample_pgp 3 ''f'' sample_ring (- 1) sample_keys)) =
     (Returns (None, None),
      \<lparr>attachmentProc =
         \<lparr>w = Some 0, pipe = Some PipeWriter, done_wg = 0, split = None,
          garbageCollector = - 1, err = None\<rparr>,
       conduit = \<lparr>written = [0, 0xFF], closed = True\<rparr>,
       split_task = Dead NilDereference,
       trace = [EvGo, EvEncrypt, EvCloseWriter, EvClosePipe, EvSeparate [0, 0xFF], EvDone,
                EvWait]\<rparr>)"
  unfolding racing_started_eq
  by (simp add: racing_env_def malformed_env_def Finish_def WaitGroup_Wait_def
      run_split_task_def split_task_body_def WaitGroup_Done_def WriteCloser_Close_def
      PipeWriter_Write_def PipeWriter_Close_def first_error_def Let_def sample_defs)

theorem Finish_closes_then_joins_witness:
  "constructed sample_started \<and> err (attachmentProc sample_started) = None
   \<and> fst (Finish sample_env sample_started)
       = Returns (Some \<lparr>DataPacket = [0xFF], KeyPacket = [0xC1], Algo = AES256\<rparr>, None)
   \<and> split_task (snd (Finish sample_env sample_started)) = Finished
   \<and> added sample_started (snd (Finish sample_env sample_started))
       = [EvCloseWriter, EvClosePipe, EvSeparate [0xC1, 0xFF], EvDone, EvWait]
   \<and> constructed
        (snd (encryptAttachment racing_env sample_pgp 3 ''f'' sample_ring (- 1) sample_keys))
   \<and> fst (Finish racing_env
        (snd (encryptAttachment racing_env sample_pgp 3 ''f'' sample_ring (- 1) sample_keys)))
       = Returns (None, None)
   \<and> split_task (snd (Finish racing_env
        (snd (encryptAttachment racing_env sample_pgp 3 ''f'' sample_ring (- 1) sample_keys))))
       = Dead NilDereference
   \<and> ended (split_task (snd (Finish racing_env
        (snd (encryptAttachment racing_env sample_pgp 3 ''f'' sample_ring (- 1) sample_keys)))))"
proof -
  let ?r = "snd (encryptAttachment racing_env sample_pgp 3 ''f'' sample_ring (- 1) sample_keys)"
  have c: "constructed sample_started"
    by (simp add: sample_started_eq constructed_def)
  have e: "err (attachmentProc sample_started) = None"
    by (simp add: sample_started_eq)
  have t: "split_task sample_started = Reading 3 (- 1)"
    and g: "garbageCollector (attachmentProc sample_started) = - 1"
    by (simp_all add: sample_started_eq)
  have w: "written (conduit (snd (Finish sample_env sample_started))) = [0xC1, 0xFF]"
    by (simp add: sample_started_eq Finish_def WaitGroup_Wait_def run_split_task_def
        split_task_body_def WaitGroup_Done_def WriteCloser_Close_def PipeWriter_Write_def
        PipeWriter_Close_def first_error_def Let_def sample_defs)
  have s1: "split_task (snd (Finish sample_env sample_started)) = Finished"
    by (simp add: sample_started_eq Finish_def WaitGroup_Wait_def run_split_task_def
        split_task_body_def WaitGroup_Done_def WriteCloser_Close_def PipeWriter_Write_def
        PipeWriter_Close_def first_error_def Let_def sample_defs)
  have rc: "constructed ?r"
    by (simp add: racing_started_eq constructed_def)
  have re: "err (attachmentProc ?r) = None"
    by (simp add: racing_started_eq)
  have rf: "fst (Finish racing_env ?r) = Returns (None, None)"
    and rt: "split_task (snd (Finish racing_env ?r)) = Dead NilDereference"
    by (simp_all add: Finish_racing_started)
  show ?thesis
    using c e t g w s1 rc rf rt Finish_sample_started
      Finish_closes_then_joins [OF c e, of sample_env]
      Finish_closes_then_joins [OF rc re, of racing_env]
    by simp
qed

lemma run_split_task_quiet:
  "\<exists>evs. trace (run_split_task env a b s) = trace s @ evs \<and> EvGC \<notin> set evs"
  by (auto simp: run_split_task_def split_task_body_def Let_def split: prod.splits option.splits)

lemma run_split_task_threshold:
  "garbageCollector (attachmentProc (run_split_task env a b s))
     = garbageCollector (attachmentProc s)"
  by (auto simp: run_split_task_def split_task_body_def Let_def split: prod.splits option.splits)

lemma Wait_quiet:
  "\<exists>evs. trace (snd (WaitGroup_Wait env s)) = trace s @ evs \<and> EvGC \<notin> set evs"
proof (cases "done_wg (attachmentProc s) = 0")
  case True
  then show ?thesis by (simp add: WaitGroup_Wait_def)
next
  case False
  show ?thesis
  proof (cases "split_task s")
    case (Reading a b)
    obtain evs where r: "trace (run_split_task env a b s) = trace s @ evs" "EvGC \<notin> set evs"
      using run_split_task_quiet by blast
    show ?thesis
    proof (cases "closed (conduit s)")
      case True
      with False Reading r show ?thesis
        by (auto simp: WaitGroup_Wait_def Let_def split: task.splits)
    next
      case c: False
      with False Reading show ?thesis by (simp add: WaitGroup_Wait_def)
    qed
  qed (use False in \<open>simp_all add: WaitGroup_Wait_def\<close>)
qed

lemma Wait_threshold:
  "garbageCollector (attachmentProc (snd (WaitGroup_Wait env s)))
     = garbageCollector (attachmentProc s)"
  by (auto simp: WaitGroup_Wait_def Let_def run_split_task_threshold split: task.splits)

lemma Finish_reclaims:
  "EvGC \<in> set (added s (snd (Finish env s)))
     \<longleftrightarrow> 0 < garbageCollector (attachmentProc s)
         \<and> (\<exists>sp. fst (Finish env s) = Returns (sp, None))"
proof (cases "err (attachmentProc s)")
  case (Some e)
  then show ?thesis by (simp add: Finish_def added_def)
next
  case None
  show ?thesis
  proof (cases "w (attachmentProc s)")
    case n: None
    with None show ?thesis by (simp add: Finish_def added_def)
  next
    case (Some fe)
    obtain fe' p1 e1 where cl: "WriteCloser_Close env fe (conduit s) = (fe', p1, e1)"
      by (cases "WriteCloser_Close env fe (conduit s)") auto
    show ?thesis
    proof (cases "pipe (attachmentProc s)")
      case n: None
      with None Some cl show ?thesis by (simp add: Finish_def added_def)
    next
      case pw: (Some pw)
      define s2 where "s2 = s\<lparr>attachmentProc := (attachmentProc s)\<lparr>w := Some fe'\<rparr>,
        conduit := PipeWriter_Close p1, trace := trace s @ [EvCloseWriter, EvClosePipe]\<rparr>"
      have fin: "Finish env s =
         (case WaitGroup_Wait env s2 of
            (Returns u, s3) \<Rightarrow>
              (Returns (split (attachmentProc s3), None),
               if garbageCollector (attachmentProc s3) > 0
               then s3\<lparr>trace := trace s3 @ [EvGC]\<rparr> else s3)
          | (Panics p, s3) \<Rightarrow> (Panics p, s3)
          | (Crashes p, s3) \<Rightarrow> (Crashes p, s3)
          | (Deadlock, s3) \<Rightarrow> (Deadlock, s3))"
        using None Some pw cl
        by (simp add: Finish_def s2_def Let_def split: prod.splits outcome.splits)
      obtain evs where q: "trace (snd (WaitGroup_Wait env s2)) = trace s2 @ evs"
        and g: "EvGC \<notin> set evs"
        using Wait_quiet by blast
      have th: "garbageCollector (attachmentProc (snd (WaitGroup_Wait env s2)))
                  = garbageCollector (attachmentProc s)"
        by (simp add: Wait_threshold s2_def)
      obtain oc s3 where ws: "WaitGroup_Wait env s2 = (oc, s3)"
        by (cases "WaitGroup_Wait env s2") auto
      with q g th have q': "trace s3 = trace s @ [EvCloseWriter, EvClosePipe] @ evs"
        and th': "garbageCollector (attachmentProc s3) = garbageCollector (attachmentProc s)"
        by (simp_all add: s2_def)
      show ?thesis
        using ws q' th' g
        by (cases oc) (auto simp: fin added_def)
    qed
  qed
qed

lemma Process_keeps:
  "err (attachmentProc (snd (Process env s plainData))) = err (attachmentProc s)"
  "garbageCollector (attachmentProc (snd (Process env s plainData)))
     = garbageCollector (attachmentProc s)"
  by (auto simp: Process_def Let_def split: option.splits prod.splits)

lemma Finish_threshold:
  "garbageCollector (attachmentProc (snd (Finish env s))) = garbageCollector (attachmentProc s)"
proof (cases "err (attachmentProc s)")
  case (Some e)
  then show ?thesis by (simp add: Finish_def)
next
  case None
  show ?thesis
  proof (cases "w (attachmentProc s)")
    case n: None
    with None show ?thesis by (simp add: Finish_def)
  next
    case (Some fe)
    obtain fe' p1 e1 where cl: "WriteCloser_Close env fe (conduit s) = (fe', p1, e1)"
      by (cases "WriteCloser_Close env fe (conduit s)") auto
    show ?thesis
    proof (cases "pipe (attachmentProc s)")
      case n: None
      with None Some cl show ?thesis by (simp add: Finish_def)
    next
      case pw: (Some pw)
      define s2 where "s2 = s\<lparr>attachmentProc := (attachmentProc s)\<lparr>w := Some fe'\<rparr>,
        conduit := PipeWriter_Close p1, trace := trace s @ [EvCloseWriter, EvClosePipe]\<rparr>"
      obtain oc s3 where ws: "WaitGroup_Wait env s2 = (oc, s3)"
        by (cases "WaitGroup_Wait env s2") auto
      with Wait_threshold [of env s2]
      have "garbageCollector (attachmentProc s3) = garbageCollector (attachmentProc s)"
        by (simp add: s2_def)
      with ws None Some pw cl show ?thesis
        by (cases oc) (simp_all add: Finish_def s2_def Let_def)
    qed
  qed
qed

text \<open>Whatever a caller does with a processor it has been handed, the processor stays
  constructed, no error is recorded in it, and its threshold is the one it was built with.\<close>

lemma after_keeps:
  "constructed s \<Longrightarrow> constructed (after env s uses)"
  "err (attachmentProc s) = None \<Longrightarrow> err (attachmentProc (after env s uses)) = None"
  "garbageCollector (attachmentProc (after env s uses)) = garbageCollector (attachmentProc s)"
proof (induction env s uses rule: after.induct)
  case (1 env s)
  {
    case 1 then show ?case by simp
  next
    case 2 then show ?case by simp
  next
    case 3 then show ?case by simp
  }
next
  case (2 env s plainData uses)
  {
    case 1 with 2 show ?case by (simp add: Process_constructed(1))
  next
    case 2 with "2.IH" show ?case by (simp add: Process_keeps)
  next
    case 3 with "2.IH" show ?case by (simp add: Process_keeps)
  }
next
  case (3 env s uses)
  {
    case 1 with 3 show ?case by (simp add: Finish_constructed)
  next
    case 2 with "3.IH" show ?case by (simp add: Finish_err)
  next
    case 3 with "3.IH" show ?case by (simp add: Finish_threshold)
  }
qed

text \<open>Claim C8. \<open>EncryptAttachmentLowMemory\<close> sets the threshold of its processor to exactly
  \<open>2^20\<close>. For every processor that \<open>encryptAttachment\<close> has handed out, with whatever
  threshold and after whatever calls of \<open>Process\<close> and \<open>Finish\<close>, the threshold is still the
  one it was built with, and a call of \<open>Finish\<close> that returns has triggered a reclamation
  pass if and only if that threshold is greater than zero.\<close>

theorem reclamation_iff_threshold_positive:
  assumes "fst (encryptAttachment env pgp estimatedSize fileName publicKey gc keys) = (Some r, None)"
    and "s = after env (snd (encryptAttachment env pgp estimatedSize fileName publicKey gc keys)) uses"
    and "fst (Finish env s) = Returns result"
  shows "garbageCollector
           (attachmentProc
              (snd (EncryptAttachmentLowMemory env pgp estimatedSize fileName publicKey keys)))
           = 2 ^ 20
       \<and> garbageCollector (attachmentProc s) = gc
       \<and> (EvGC \<in> set (added s (snd (Finish env s))) \<longleftrightarrow> 0 < gc)"
proof -
  let ?s0 = "snd (encryptAttachment env pgp estimatedSize fileName publicKey gc keys)"
  have low: "garbageCollector
     (attachmentProc (snd (EncryptAttachmentLowMemory env pgp estimatedSize fileName publicKey keys)))
     = 2 ^ 20"
    by (simp add: EncryptAttachmentLowMemory_def encryptAttachment_def Let_def
        split: sum.splits prod.splits)
  have g0: "garbageCollector (attachmentProc ?s0) = gc"
    by (simp add: encryptAttachment_def Let_def split: sum.splits prod.splits)
  have e0: "err (attachmentProc ?s0) = None"
    using assms(1) by (rule encryptAttachment_constructed(2))
  have g: "garbageCollector (attachmentProc s) = gc"
    using g0 assms(2) by (simp add: after_keeps(3))
  have e: "err (attachmentProc s) = None"
    using e0 assms(2) by (simp add: after_keeps(2))
  obtain sp er where res: "result = (sp, er)"
    by (cases result) auto
  have "er = None"
    using Finish_returns_no_error [OF e, of env sp] assms(3) res
    by (cases er) auto
  with assms(3) res have "\<exists>sp. fst (Finish env s) = Returns (sp, None)"
    by auto
  with Finish_reclaims [of s env] g have "EvGC \<in> set (added s (snd (Finish env s))) \<longleftrightarrow> 0 < gc"
    by simp
  with low g show ?thesis by simp
qed

theorem reclamation_iff_threshold_positive_witness:
  "fst (encryptAttachment sample_env sample_pgp 3 ''f'' sample_ring 1048576 sample_keys)
     = (Some ProcessorRef, None)
   \<and> fst (Finish sample_env
        (after sample_env
           (snd (encryptAttachment sample_env sample_pgp 3 ''f'' sample_ring 1048576 sample_keys))
           [UseProcess [1, 2, 3]]))
     = Returns (Some \<lparr>DataPacket = [2, 3, 4, 0xFF], KeyPacket = [0xC1], Algo = AES256\<rparr>, None)
   \<and> EvGC \<in> set (added
        (after sample_env
           (snd (encryptAttachment sample_env sample_pgp 3 ''f'' sample_ring 1048576 sample_keys))
           [UseProcess [1, 2, 3]])
        (snd (Finish sample_env
           (after sample_env
              (snd (encryptAttachment sample_env sample_pgp 3 ''f'' sample_ring 1048576
                      sample_keys))
              [UseProcess [1, 2, 3]]))))
   \<and> fst (encryptAttachment sample_env sample_pgp 3 ''f'' sample_ring (- 1) sample_keys)
     = (Some ProcessorRef, None)
   \<and> EvGC \<notin> set (added
        (after sample_env
           (snd (encryptAttachment sample_env sample_pgp 3 ''f'' sample_ring (- 1) sample_keys))
           [])
        (snd (Finish sample_env
           (after sample_env
              (snd (encryptAttachment sample_env sample_pgp 3 ''f'' sample_ring (- 1)
                      sample_keys))
              []))))"
proof -
  let ?b = "encryptAttachment sample_env sample_pgp 3 ''f'' sample_ring 1048576 sample_keys"
  let ?s = "after sample_env (snd ?b) [UseProcess [1, 2, 3]]"
  let ?c = "encryptAttachment sample_env sample_pgp 3 ''f'' sample_ring (- 1) sample_keys"
  let ?t = "after sample_env (snd ?c) []"
  have b: "fst ?b = (Some ProcessorRef, None)"
    by (simp add: run_defs sample_defs)
  have f: "fst (Finish sample_env ?s)
             = Returns (Some \<lparr>DataPacket = [2, 3, 4, 0xFF], KeyPacket = [0xC1], Algo = AES256\<rparr>,
                        None)"
    by (simp add: run_defs sample_defs)
  have c: "fst ?c = (Some ProcessorRef, None)"
    by (simp add: run_defs sample_defs)
  have t: "?t = sample_started"
    by (simp add: sample_started_def)
  have h: "fst (Finish sample_env ?t)
             = Returns (Some \<lparr>DataPacket = [0xFF], KeyPacket = [0xC1], Algo = AES256\<rparr>, None)"
    unfolding t by (rule Finish_sample_started)
  show ?thesis
    using b f c
      reclamation_iff_threshold_positive [OF b refl f]
      reclamation_iff_threshold_positive [OF c refl h]
    by simp
qed

section \<open>The background split task\<close>

text \<open>Claim C10. When \<open>SeparateKeyAndData\<close> returns an error, the task does not skip what
  follows the call. With a nil split it goes on to the assignment
  \<open>split.Algo = constants.AES256\<close> and dies there of a nil pointer dereference. With a split
  next to the error it assigns the field and stores the split, and finishes.\<close>

theorem task_dereferences_nil_split:
  assumes "SeparateKeyAndData env (written (conduit s)) estimatedSize gc = (sp, Some e)"
  shows "(sp = None \<longrightarrow> split_task (run_split_task env estimatedSize gc s) = Dead NilDereference)
       \<and> (\<forall>x. sp = Some x \<and> 0 < done_wg (attachmentProc s) \<longrightarrow>
              split (attachmentProc (run_split_task env estimatedSize gc s))
                = Some (x\<lparr>Algo := AES256\<rparr>)
            \<and> split_task (run_split_task env estimatedSize gc s) = Finished)"
  using assms
  by (auto simp: run_split_task_def split_task_body_def WaitGroup_Done_def Let_def)

theorem task_dereferences_nil_split_witness:
  "SeparateKeyAndData malformed_env
      (written (conduit
         ((snd (encryptAttachment malformed_env sample_pgp 3 ''f'' sample_ring (- 1) sample_keys))
            \<lparr>conduit := \<lparr>written = [0, 0xFF], closed = True\<rparr>\<rparr>))) 3 (- 1)
     = (None, Some (Error ''malformed''))
   \<and> split_task
        (run_split_task malformed_env 3 (- 1)
           ((snd (encryptAttachment malformed_env sample_pgp 3 ''f'' sample_ring (- 1) sample_keys))
              \<lparr>conduit := \<lparr>written = [0, 0xFF], closed = True\<rparr>\<rparr>))
       = Dead NilDereference"
proof -
  let ?s = "(snd (encryptAttachment malformed_env sample_pgp 3 ''f'' sample_ring (- 1) sample_keys))
              \<lparr>conduit := \<lparr>written = [0, 0xFF], closed = True\<rparr>\<rparr>"
  have h: "SeparateKeyAndData malformed_env (written (conduit ?s)) 3 (- 1)
             = (None, Some (Error ''malformed''))"
    by (simp add: malformed_env_def sample_defs)
  show ?thesis
    using h task_dereferences_nil_split [OF h] by simp
qed

text \<open>Claim C2. On a stream that the separator rejects, with a nil split and an error, the
  task dies and the error is recorded nowhere: the one-shot encryption ends in a crash, or,
  when the caller wins the race against the end of the process, returns a nil split with
  a nil error. When the separator reports an error next to a split, \<open>Finish\<close> returns the
  split with a nil error. In none of these runs does the caller get the separation error.\<close>

theorem split_error_is_dropped:
  "fst (EncryptAttachment malformed_env sample_pgp [1, 2, 3] ''f'' sample_ring sample_keys)
     = Crashes NilDereference
   \<and> err (attachmentProc
        (snd (EncryptAttachment malformed_env sample_pgp [1, 2, 3] ''f'' sample_ring sample_keys)))
     = None
   \<and> SeparateKeyAndData lenient_env [0xC1, 2, 3, 4, 0xFF] 3 (- 1)
     = (Some \<lparr>DataPacket = [2, 3, 4, 0xFF], KeyPacket = [0xC1], Algo = []\<rparr>,
        Some (Error ''trailing bytes''))
   \<and> fst (EncryptAttachment lenient_env sample_pgp [1, 2, 3] ''f'' sample_ring sample_keys)
     = Returns (Some \<lparr>DataPacket = [2, 3, 4, 0xFF], KeyPacket = [0xC1], Algo = AES256\<rparr>, None)
   \<and> fst (EncryptAttachment racing_env sample_pgp [1, 2, 3] ''f'' sample_ring sample_keys)
     = Returns (None, None)
   \<and> err (attachmentProc
        (snd (EncryptAttachment racing_env sample_pgp [1, 2, 3] ''f'' sample_ring sample_keys)))
     = None"
  by (simp add: racing_env_def malformed_env_def lenient_env_def run_defs sample_defs)

section \<open>Failure to build the front-end\<close>

text \<open>Claim C3, as stated, fails: without recipients the sample front-end cannot be built,
  the error comes back at once and no processor is returned, yet the task has been started
  and is reading a conduit that is still open.\<close>

theorem task_started_before_failure:
  "fst (encryptAttachment sample_env sample_pgp 3 ''f'' \<lparr>entities = []\<rparr> (- 1) sample_keys)
     = (None, Some (Error ''no recipient''))
   \<and> split_task
        (snd (encryptAttachment sample_env sample_pgp 3 ''f'' \<lparr>entities = []\<rparr> (- 1) sample_keys))
     = Reading 3 (- 1)
   \<and> split_task
        (snd (encryptAttachment sample_env sample_pgp 3 ''f'' \<lparr>entities = []\<rparr> (- 1) sample_keys))
     \<noteq> NotStarted
   \<and> \<not> closed (conduit
        (snd (encryptAttachment sample_env sample_pgp 3 ''f'' \<lparr>entities = []\<rparr> (- 1) sample_keys)))"
  by (simp add: run_defs sample_defs)

text \<open>Claim C3, amended. When the front-end cannot be built, \<open>encryptAttachment\<close> and both
  entry points return the error of the construction and no processor, at once; the task was
  started before the construction was attempted.\<close>

theorem construction_failure_is_synchronous:
  assumes "openpgp_Encrypt env (entities publicKey) keys \<lparr>FileName = fileName\<rparr>
             \<lparr>DefaultCipher = CipherAES256, Time = getTimeGenerator pgp\<rparr> = Inl e"
  shows "fst (encryptAttachment env pgp estimatedSize fileName publicKey gc keys) = (None, Some e)
       \<and> fst (EncryptAttachmentLowMemory env pgp estimatedSize fileName publicKey keys)
           = (None, Some e)
       \<and> fst (EncryptAttachment env pgp plainData fileName publicKey keys)
           = Returns (None, Some e)
       \<and> trace (snd (encryptAttachment env pgp estimatedSize fileName publicKey gc keys))
           = [EvGo, EvEncrypt]
       \<and> split_task (snd (encryptAttachment env pgp estimatedSize fileName publicKey gc keys))
           = Reading estimatedSize gc"
  using assms
  by (simp add: encryptAttachment_def EncryptAttachmentLowMemory_def EncryptAttachment_def)

theorem construction_failure_is_synchronous_witness:
  "openpgp_Encrypt sample_env (entities \<lparr>entities = []\<rparr>) sample_keys \<lparr>FileName = ''f''\<rparr>
       \<lparr>DefaultCipher = CipherAES256, Time = getTimeGenerator sample_pgp\<rparr>
     = Inl (Error ''no recipient'')
   \<and> fst (EncryptAttachment sample_env sample_pgp [1, 2, 3] ''f'' \<lparr>entities = []\<rparr> sample_keys)
     = Returns (None, Some (Error ''no recipient''))"
proof -
  have h: "openpgp_Encrypt sample_env (entities \<lparr>entities = []\<rparr>) sample_keys
             \<lparr>FileName = ''f''\<rparr>
             \<lparr>DefaultCipher = CipherAES256, Time = getTimeGenerator sample_pgp\<rparr>
           = Inl (Error ''no recipient'')"
    by (simp add: sample_defs)
  show ?thesis
    using h construction_failure_is_synchronous [OF h, of 3 "- 1" "[1, 2, 3]"] by simp
qed

section \<open>Decryption\<close>

lemma sample_unlock:
  "Unlock sample_env sample_ring (bytes_of ''pw'') sample_keys
     = (None, [0 \<mapsto> \<lparr>Encrypted = False, Passphrase = bytes_of ''pw''\<rparr>])"
  by (simp add: sample_defs)

text \<open>Claim C6. Once the key ring is unlocked, \<open>DecryptAttachment\<close> is the decryption of the
  spec: \<open>ReadMessage\<close> is called on the key packet followed by the data packet, with the
  entities of the key ring as unlocked; a parse error is returned as the error; otherwise
  the body is read to its end and returned whole, or the read error is returned with no
  bytes.\<close>

theorem DecryptAttachment_refines_spec:
  assumes "Unlock env kr (bytes_of passphrase) keys = (None, unlocked)"
  shows "fst (DecryptAttachment env pgp keyPacket dataPacket kr passphrase keys)
           = Decrypt_spec env pgp keyPacket dataPacket kr unlocked
       \<and> take 2 (snd (snd (DecryptAttachment env pgp keyPacket dataPacket kr passphrase keys)))
           = [CallUnlock, CallReadMessage (keyPacket @ dataPacket)]
       \<and> (\<forall>e. openpgp_ReadMessage env (keyPacket @ dataPacket) (entities kr) unlocked
                 \<lparr>DefaultCipher = 0, Time = getTimeGenerator pgp\<rparr> = Inl e \<longrightarrow>
              fst (DecryptAttachment env pgp keyPacket dataPacket kr passphrase keys)
                = (None, Some e))
       \<and> (\<forall>md. openpgp_ReadMessage env (keyPacket @ dataPacket) (entities kr) unlocked
                 \<lparr>DefaultCipher = 0, Time = getTimeGenerator pgp\<rparr> = Inr md \<longrightarrow>
              fst (DecryptAttachment env pgp keyPacket dataPacket kr passphrase keys)
                = (case ReadAll (UnverifiedBody md) of
                     (body, None) \<Rightarrow> (Some body, None)
                   | (partial, Some e) \<Rightarrow> (None, Some e)))"
  using assms
  by (auto simp: DecryptAttachment_def Decrypt_spec_def Let_def ReadAll_MultiReader_NewReader
      split: sum.splits prod.splits option.splits)

theorem DecryptAttachment_refines_spec_witness:
  "Unlock sample_env sample_ring (bytes_of ''pw'') sample_keys
     = (None, [0 \<mapsto> \<lparr>Encrypted = False, Passphrase = bytes_of ''pw''\<rparr>])
   \<and> fst (DecryptAttachment sample_env sample_pgp [0xC1] [2, 3, 4, 0xFF] sample_ring ''pw''
           sample_keys) = (Some [1, 2, 3], None)
   \<and> fst (DecryptAttachment sample_env sample_pgp [0xC1] [2, 3, 4] sample_ring ''pw''
           sample_keys) = (None, Some (Error ''truncated''))"
proof -
  let ?u = "[0 \<mapsto> \<lparr>Encrypted = False, Passphrase = bytes_of ''pw''\<rparr>]"
  have d1: "Decrypt_spec sample_env sample_pgp [0xC1] [2, 3, 4, 0xFF] sample_ring ?u
              = (Some [1, 2, 3], None)"
    by (simp add: Decrypt_spec_def sample_defs NewReader_def)
  have d2: "Decrypt_spec sample_env sample_pgp [0xC1] [2, 3, 4] sample_ring ?u
              = (None, Some (Error ''truncated''))"
    by (simp add: Decrypt_spec_def sample_defs NewReader_def)
  show ?thesis
    using sample_unlock d1 d2
      DecryptAttachment_refines_spec [OF sample_unlock, of sample_pgp "[0xC1]" "[2, 3, 4, 0xFF]"]
      DecryptAttachment_refines_spec [OF sample_unlock, of sample_pgp "[0xC1]" "[2, 3, 4]"]
    by simp
qed

lemma unlock_entities_wrong:
  assumes "\<exists>a \<in> set as. \<exists>e. keys a = Some e \<and> Encrypted e"
    and "\<forall>a \<in> set as. \<forall>e. keys a = Some e \<and> Encrypted e \<longrightarrow> Passphrase e \<noteq> passphrase"
  shows "unlock_entities as passphrase keys = (Some AuthenticationError, keys)"
  using assms
proof (induction as)
  case Nil
  then show ?case by simp
next
  case (Cons a as)
  show ?case
  proof (cases "keys a")
    case None
    with Cons show ?thesis by auto
  next
    case (Some e)
    show ?thesis
    proof (cases "Encrypted e")
      case True
      with Some Cons.prems(2) have "Passphrase e \<noteq> passphrase" by simp
      with Some True show ?thesis by simp
    next
      case False
      with Some Cons show ?thesis by auto
    qed
  qed
qed

text \<open>Claim C7. On a locked key ring with a passphrase that opens none of its locked
  entities, unlocking fails, and \<open>DecryptAttachment\<close> returns no bytes and the authentication
  error under the prefix "gopenpgp: cannot decrypt attachment: "; \<open>Unlock\<close> is the only
  collaborator called, so nothing has been parsed or decrypted, and the key store is as it
  was.\<close>

theorem DecryptAttachment_wrong_passphrase:
  assumes "Unlock env = Unlock_spec"
    and "locked kr keys"
    and "incorrect (bytes_of passphrase) kr keys"
  shows "DecryptAttachment env pgp keyPacket dataPacket kr passphrase keys
           = ((None, Some (Errorf ''gopenpgp: cannot decrypt attachment: '' AuthenticationError)),
              keys, [CallUnlock])"
proof -
  have "Unlock env kr (bytes_of passphrase) keys = (Some AuthenticationError, keys)"
    using assms unlock_entities_wrong [of "entities kr" keys "bytes_of passphrase"]
    by (simp add: Unlock_spec_def locked_def incorrect_def)
  then show ?thesis
    by (simp add: DecryptAttachment_def)
qed

theorem DecryptAttachment_wrong_passphrase_witness:
  "Unlock sample_env = Unlock_spec \<and> locked sample_ring sample_keys
   \<and> fst (DecryptAttachment sample_env sample_pgp [0xC1] [2, 3, 4, 0xFF] sample_ring ''no''
           sample_keys)
     = (None, Some (Error ''gopenpgp: cannot decrypt attachment: wrong passphrase''))"
proof -
  have u: "Unlock sample_env = Unlock_spec"
    by (simp add: sample_env_def)
  have l: "locked sample_ring sample_keys"
    by (simp add: locked_def sample_ring_def sample_keys_def)
  have i: "incorrect (bytes_of ''no'') sample_ring sample_keys"
    by (simp add: incorrect_def sample_ring_def sample_keys_def bytes_of_def)
  show ?thesis
    using u l DecryptAttachment_wrong_passphrase [OF u l i, of sample_pgp "[0xC1]" "[2, 3, 4, 0xFF]"]
    by (simp add: AuthenticationError_def)
qed

section \<open>The round trip\<close>

lemma Process_chunks_stream:
  assumes "ew_stream env fe cs = Some (out, fe')"
  shows "Process_chunks env
           \<lparr>attachmentProc = \<lparr>w = Some fe, pipe = p, done_wg = d, split = sp,
                               garbageCollector = g, err = e\<rparr>,
            conduit = \<lparr>written = wr, closed = False\<rparr>, split_task = t, trace = tr\<rparr> cs
         = (Returns (),
            \<lparr>attachmentProc = \<lparr>w = Some fe', pipe = p, done_wg = d, split = sp,
                                garbageCollector = g, err = e\<rparr>,
             conduit = \<lparr>written = wr @ out, closed = False\<rparr>, split_task = t,
             trace = tr @ map EvWrite cs\<rparr>)"
  using assms
proof (induction cs arbitrary: fe wr tr out)
  case Nil
  then show ?case by simp
next
  case (Cons c cs)
  obtain o1 fe1 e1 where w1: "ew_Write env fe c = (o1, fe1, e1)"
    by (cases "ew_Write env fe c") auto
  with Cons.prems have e1: "e1 = None"
    by (cases e1) auto
  with Cons.prems w1 obtain outs where rest: "ew_stream env fe1 cs = Some (outs, fe')"
    and out: "out = o1 @ outs"
    by (auto split: option.splits)
  have step: "Process env
           \<lparr>attachmentProc = \<lparr>w = Some fe, pipe = p, done_wg = d, split = sp,
                               garbageCollector = g, err = e\<rparr>,
            conduit = \<lparr>written = wr, closed = False\<rparr>, split_task = t, trace = tr\<rparr> c
         = (Returns (),
            \<lparr>attachmentProc = \<lparr>w = Some fe1, pipe = p, done_wg = d, split = sp,
                                garbageCollector = g, err = e\<rparr>,
             conduit = \<lparr>written = wr @ o1, closed = False\<rparr>, split_task = t,
             trace = tr @ [EvWrite c]\<rparr>)"
    using w1 e1
    by (simp add: Process_def WriteCloser_Write_def PipeWriter_Write_def first_error_def)
  show ?case
    using Cons.IH [OF rest, of "wr @ o1" "tr @ [EvWrite c]"] out
    by (simp add: step)
qed

lemma Finish_open_session:
  assumes "ew_Close env fe = (trailer, fe', e1)"
    and "SeparateKeyAndData env (wr @ trailer) estimatedSize gc = (Some sp, e2)"
  shows "fst (Finish env
           \<lparr>attachmentProc = \<lparr>w = Some fe, pipe = Some PipeWriter, done_wg = 1, split = None,
                               garbageCollector = g, err = None\<rparr>,
            conduit = \<lparr>written = wr, closed = False\<rparr>,
            split_task = Reading estimatedSize gc, trace = tr\<rparr>)
         = Returns (Some (sp\<lparr>Algo := AES256\<rparr>), None)"
  using assms
  by (simp add: Finish_def WriteCloser_Close_def PipeWriter_Write_def PipeWriter_Close_def
      first_error_def WaitGroup_Wait_def run_split_task_def split_task_body_def WaitGroup_Done_def Let_def)

lemma encryptAttachment_valid:
  assumes "openpgp_Encrypt env (entities publicKey) keys \<lparr>FileName = fileName\<rparr>
             \<lparr>DefaultCipher = CipherAES256, Time = getTimeGenerator pgp\<rparr> = Inr (header, fe0)"
  shows "encryptAttachment env pgp estimatedSize fileName publicKey gc keys
         = ((Some ProcessorRef, None),
            \<lparr>attachmentProc = \<lparr>w = Some fe0, pipe = Some PipeWriter, done_wg = 1, split = None,
                                garbageCollector = gc, err = None\<rparr>,
             conduit = \<lparr>written = header, closed = False\<rparr>,
             split_task = Reading estimatedSize gc, trace = [EvGo, EvEncrypt]\<rparr>)"
  using assms
  by (simp add: encryptAttachment_def PipeWriter_Write_def)

lemma session_round_trip:
  assumes valid: "openpgp_Encrypt env (entities publicKey) keys \<lparr>FileName = fileName\<rparr>
             \<lparr>DefaultCipher = CipherAES256, Time = getTimeGenerator pgp\<rparr> = Inr (header, fe0)"
    and unlock: "Unlock env kr (bytes_of passphrase) keys = (None, unlocked)"
    and lib: "openpgp_round_trip env header fe0 (entities kr) unlocked
             \<lparr>DefaultCipher = 0, Time = getTimeGenerator pgp'\<rparr>"
    and sep: "separator_keeps_message env (entities kr) unlocked
             \<lparr>DefaultCipher = 0, Time = getTimeGenerator pgp'\<rparr>"
  shows "\<exists>sp s1. Process_chunks env
                  (snd (encryptAttachment env pgp estimatedSize fileName publicKey gc keys)) chunks
                = (Returns (), s1)
            \<and> fst (Finish env s1) = Returns (Some sp, None)
            \<and> fst (DecryptAttachment env pgp' (KeyPacket sp) (DataPacket sp) kr passphrase keys)
                = (Some (concat chunks), None)"
proof -
  let ?cfg = "\<lparr>DefaultCipher = 0, Time = getTimeGenerator pgp'\<rparr>"
  from lib obtain out fe md where
    str: "ew_stream env fe0 chunks = Some (out, fe)"
    and rd: "openpgp_ReadMessage env (header @ out @ fst (ew_Close env fe)) (entities kr)
               unlocked ?cfg = Inr md"
    and body: "ReadAll (UnverifiedBody md) = (concat chunks, None)"
    unfolding openpgp_round_trip_def by blast
  obtain trailer fe' e1 where cl: "ew_Close env fe = (trailer, fe', e1)"
    by (cases "ew_Close env fe") auto
  from sep rd obtain sp where
    sp: "SeparateKeyAndData env (header @ out @ fst (ew_Close env fe)) estimatedSize gc
           = (Some sp, None)"
    and rd': "openpgp_ReadMessage env (KeyPacket sp @ DataPacket sp) (entities kr) unlocked ?cfg
           = Inr md"
    unfolding separator_keeps_message_def by blast
  let ?s1 = "\<lparr>attachmentProc = \<lparr>w = Some fe, pipe = Some PipeWriter, done_wg = 1, split = None,
                                garbageCollector = gc, err = None\<rparr>,
             conduit = \<lparr>written = header @ out, closed = False\<rparr>,
             split_task = Reading estimatedSize gc,
             trace = [EvGo, EvEncrypt] @ map EvWrite chunks\<rparr>"
  have p: "Process_chunks env
             (snd (encryptAttachment env pgp estimatedSize fileName publicKey gc keys)) chunks
           = (Returns (), ?s1)"
    by (simp add: encryptAttachment_valid [OF valid] Process_chunks_stream [OF str])
  have f: "fst (Finish env ?s1) = Returns (Some (sp\<lparr>Algo := AES256\<rparr>), None)"
    using sp cl by (intro Finish_open_session [OF cl]) simp
  have d: "fst (DecryptAttachment env pgp'
                  (KeyPacket (sp\<lparr>Algo := AES256\<rparr>)) (DataPacket (sp\<lparr>Algo := AES256\<rparr>))
                  kr passphrase keys) = (Some (concat chunks), None)"
    using unlock rd' body
    by (simp add: DecryptAttachment_def Let_def ReadAll_MultiReader_NewReader)
  from p f d show ?thesis by blast
qed

lemma sample_stream:
  "ew_stream sample_env n cs = Some (map (\<lambda>x. x + 1) (concat cs), n + length (concat cs))"
  by (induction cs arbitrary: n) (simp_all add: sample_env_def sample_Write_def)

lemma sample_library:
  "openpgp_round_trip sample_env [0xC1] 0 [0]
     [0 \<mapsto> \<lparr>Encrypted = False, Passphrase = bytes_of ''pw''\<rparr>] config"
  unfolding openpgp_round_trip_def
proof (intro allI exI conjI)
  fix chunks
  show "ew_stream sample_env 0 chunks
          = Some (map (\<lambda>x. x + 1) (concat chunks), 0 + length (concat chunks))"
    by (rule sample_stream)
  show "openpgp_ReadMessage sample_env
          ([0xC1] @ map (\<lambda>x. x + 1) (concat chunks)
             @ fst (ew_Close sample_env (0 + length (concat chunks))))
          [0] [0 \<mapsto> \<lparr>Encrypted = False, Passphrase = bytes_of ''pw''\<rparr>] config
        = Inr \<lparr>UnverifiedBody = NewReader (concat chunks)\<rparr>"
    by (simp add: sample_env_def sample_ReadMessage_def sample_Close_def butlast_append o_def)
  show "ReadAll (UnverifiedBody \<lparr>UnverifiedBody = NewReader (concat chunks)\<rparr>)
          = (concat chunks, None)"
    by (simp add: ReadAll_NewReader)
qed

lemma sample_separator:
  "separator_keeps_message sample_env privKeyEntries keys config"
  unfolding separator_keeps_message_def
  by (auto simp: sample_env_def sample_ReadMessage_def sample_Separate_def
      split: list.splits if_splits)

text \<open>Claim C1. Let the recipient key be valid (the front-end can be built for it), let the
  key ring unlock under the passphrase, let the OpenPGP library decrypt what its front-end
  encrypted, and let the separator keep the message. Then the split returned by
  \<open>EncryptAttachment\<close> for a plaintext decrypts to that plaintext, and so does the split
  returned by \<open>Finish\<close> after the plaintext has been passed to \<open>Process\<close> in chunks, whatever
  the chunks and whatever the size hint.\<close>

theorem attachment_round_trip:
  assumes valid: "openpgp_Encrypt env (entities publicKey) keys \<lparr>FileName = fileName\<rparr>
             \<lparr>DefaultCipher = CipherAES256, Time = getTimeGenerator pgp\<rparr> = Inr (header, fe0)"
    and unlock: "Unlock env kr (bytes_of passphrase) keys = (None, unlocked)"
    and lib: "openpgp_round_trip env header fe0 (entities kr) unlocked
             \<lparr>DefaultCipher = 0, Time = getTimeGenerator pgp'\<rparr>"
    and sep: "separator_keeps_message env (entities kr) unlocked
             \<lparr>DefaultCipher = 0, Time = getTimeGenerator pgp'\<rparr>"
  shows "(\<exists>sp. fst (EncryptAttachment env pgp plainData fileName publicKey keys)
                 = Returns (Some sp, None)
              \<and> fst (DecryptAttachment env pgp' (KeyPacket sp) (DataPacket sp) kr passphrase keys)
                 = (Some plainData, None))
       \<and> (\<forall>chunks estimatedSize.
            concat chunks = plainData \<longrightarrow>
            (\<exists>sp. fst (stream_attachment env pgp estimatedSize fileName publicKey keys chunks)
                    = Returns (Some sp, None)
                 \<and> fst (DecryptAttachment env pgp' (KeyPacket sp) (DataPacket sp) kr passphrase
                         keys)
                    = (Some plainData, None)))"
proof (intro conjI allI impI)
  let ?n = "int (length plainData)"
  from session_round_trip [OF valid unlock lib sep, of ?n "- 1" "[plainData]"]
  obtain sp s1 where
    p: "Process_chunks env
          (snd (encryptAttachment env pgp ?n fileName publicKey (- 1) keys)) [plainData]
        = (Returns (), s1)"
    and f: "fst (Finish env s1) = Returns (Some sp, None)"
    and d: "fst (DecryptAttachment env pgp' (KeyPacket sp) (DataPacket sp) kr passphrase keys)
              = (Some plainData, None)"
    by auto
  from p have p1: "Process env
          (snd (encryptAttachment env pgp ?n fileName publicKey (- 1) keys)) plainData
        = (Returns (), s1)"
    by (auto split: prod.splits outcome.splits)
  obtain s2 where f2: "Finish env s1 = (Returns (Some sp, None), s2)"
    using f by (cases "Finish env s1") auto
  have "fst (EncryptAttachment env pgp plainData fileName publicKey keys) = Returns (Some sp, None)"
    using p1 f2 by (simp add: EncryptAttachment_def encryptAttachment_valid [OF valid])
  with d show "\<exists>sp. fst (EncryptAttachment env pgp plainData fileName publicKey keys)
                 = Returns (Some sp, None)
              \<and> fst (DecryptAttachment env pgp' (KeyPacket sp) (DataPacket sp) kr passphrase keys)
                 = (Some plainData, None)"
    by blast
next
  fix chunks estimatedSize
  assume c: "concat chunks = plainData"
  from session_round_trip [OF valid unlock lib sep, of estimatedSize "push_bit 20 1" chunks]
  obtain sp s1 where
    p: "Process_chunks env
          (snd (encryptAttachment env pgp estimatedSize fileName publicKey (push_bit 20 1) keys))
          chunks = (Returns (), s1)"
    and f: "fst (Finish env s1) = Returns (Some sp, None)"
    and d: "fst (DecryptAttachment env pgp' (KeyPacket sp) (DataPacket sp) kr passphrase keys)
              = (Some (concat chunks), None)"
    by auto
  have "fst (stream_attachment env pgp estimatedSize fileName publicKey keys chunks)
          = Returns (Some sp, None)"
    using p f
    by (simp add: stream_attachment_def EncryptAttachmentLowMemory_def
        encryptAttachment_valid [OF valid])
  with d c show "\<exists>sp. fst (stream_attachment env pgp estimatedSize fileName publicKey keys chunks)
                    = Returns (Some sp, None)
                 \<and> fst (DecryptAttachment env pgp' (KeyPacket sp) (DataPacket sp) kr passphrase
                         keys)
                    = (Some plainData, None)"
    by auto
qed

theorem attachment_round_trip_witness:
  "openpgp_Encrypt sample_env (entities sample_ring) sample_keys \<lparr>FileName = ''f''\<rparr>
       \<lparr>DefaultCipher = CipherAES256, Time = getTimeGenerator sample_pgp\<rparr> = Inr ([0xC1], 0)
   \<and> Unlock sample_env sample_ring (bytes_of ''pw'') sample_keys
       = (None, [0 \<mapsto> \<lparr>Encrypted = False, Passphrase = bytes_of ''pw''\<rparr>])
   \<and> openpgp_round_trip sample_env [0xC1] 0 (entities sample_ring)
        [0 \<mapsto> \<lparr>Encrypted = False, Passphrase = bytes_of ''pw''\<rparr>]
        \<lparr>DefaultCipher = 0, Time = getTimeGenerator sample_pgp\<rparr>
   \<and> separator_keeps_message sample_env (entities sample_ring)
        [0 \<mapsto> \<lparr>Encrypted = False, Passphrase = bytes_of ''pw''\<rparr>]
        \<lparr>DefaultCipher = 0, Time = getTimeGenerator sample_pgp\<rparr>
   \<and> (\<exists>sp. fst (EncryptAttachment sample_env sample_pgp [1, 2, 3] ''f'' sample_ring sample_keys)
              = Returns (Some sp, None)
           \<and> fst (DecryptAttachment sample_env sample_pgp (KeyPacket sp) (DataPacket sp)
                   sample_ring ''pw'' sample_keys) = (Some [1, 2, 3], None))
   \<and> (\<exists>sp. fst (stream_attachment sample_env sample_pgp 7 ''f'' sample_ring sample_keys
                   [[1], [], [2, 3]])
              = Returns (Some sp, None)
           \<and> fst (DecryptAttachment sample_env sample_pgp (KeyPacket sp) (DataPacket sp)
                   sample_ring ''pw'' sample_keys) = (Some [1, 2, 3], None))"
proof -
  let ?u = "[0 \<mapsto> \<lparr>Encrypted = False, Passphrase = bytes_of ''pw''\<rparr>]"
  let ?c = "\<lparr>DefaultCipher = 0, Time = getTimeGenerator sample_pgp\<rparr>"
  have valid: "openpgp_Encrypt sample_env (entities sample_ring) sample_keys \<lparr>FileName = ''f''\<rparr>
       \<lparr>DefaultCipher = CipherAES256, Time = getTimeGenerator sample_pgp\<rparr> = Inr ([0xC1], 0)"
    by (simp add: sample_defs)
  have lib: "openpgp_round_trip sample_env [0xC1] 0 (entities sample_ring) ?u ?c"
    using sample_library [of ?c] by (simp add: sample_ring_def)
  have sep: "separator_keeps_message sample_env (entities sample_ring) ?u ?c"
    by (rule sample_separator)
  have chunks: "concat [[1], [], [2, 3]] = [1, 2, 3 :: byte]"
    by simp
  note rt = attachment_round_trip [OF valid sample_unlock lib sep, of "[1, 2, 3]"]
  from rt have one: "\<exists>sp. fst (EncryptAttachment sample_env sample_pgp [1, 2, 3] ''f''
                               sample_ring sample_keys) = Returns (Some sp, None)
           \<and> fst (DecryptAttachment sample_env sample_pgp (KeyPacket sp) (DataPacket sp)
                   sample_ring ''pw'' sample_keys) = (Some [1, 2, 3], None)"
    by (rule conjunct1)
  from rt chunks have many: "\<exists>sp. fst (stream_attachment sample_env sample_pgp 7 ''f''
                                sample_ring sample_keys [[1], [], [2, 3]])
              = Returns (Some sp, None)
           \<and> fst (DecryptAttachment sample_env sample_pgp (KeyPacket sp) (DataPacket sp)
                   sample_ring ''pw'' sample_keys) = (Some [1, 2, 3], None)"
    by blast
  from valid sample_unlock lib sep one many show ?thesis
    by (intro conjI)
qed

end
